theory Spec2Isabelle
  imports Main
begin

section \<open>Values and strings\<close>

text \<open>
  Identifiers are Python \<open>str\<close> values, an optional or nullable one is a
  \<open>string option\<close>. Quantities, costs and prices are exact numbers (\<open>int\<close>).
  The column \<open>date_created\<close> (the wall clock) and the columns that none of the
  functions below reads or writes are left out of the rows. The schema of the database is
  not part of the sources, so no constraint of it (keys, foreign keys) is built into the
  tables: a table is the list of its rows, in insertion order.
\<close>

text \<open>Python's \<open>not x\<close> on an optional string: \<open>None\<close> and \<open>''\<close> are false.\<close>

fun falsy :: "string option \<Rightarrow> bool" where
  "falsy None = True"
| "falsy (Some s) = (s = [])"

definition isspace :: "char \<Rightarrow> bool" where
  "isspace c = (let n = (of_char c :: nat) in (9 \<le> n \<and> n \<le> 13) \<or> (28 \<le> n \<and> n \<le> 32))"

definition isupper :: "char \<Rightarrow> bool" where
  "isupper c = (let n = (of_char c :: nat) in 65 \<le> n \<and> n \<le> 90)"

definition islower :: "char \<Rightarrow> bool" where
  "islower c = (let n = (of_char c :: nat) in 97 \<le> n \<and> n \<le> 122)"

definition upper_char :: "char \<Rightarrow> char" where
  "upper_char c = (if islower c then char_of ((of_char c :: nat) - 32) else c)"

definition lower_char :: "char \<Rightarrow> char" where
  "lower_char c = (if isupper c then char_of ((of_char c :: nat) + 32) else c)"

text \<open>\<open>str.strip()\<close>, \<open>str.title()\<close> and SQL \<open>LOWER\<close>, on ASCII text.\<close>

definition strip :: "string \<Rightarrow> string" where
  "strip s = rev (dropWhile isspace (rev (dropWhile isspace s)))"

fun title_from :: "bool \<Rightarrow> string \<Rightarrow> string" where
  "title_from previous_is_cased [] = []"
| "title_from previous_is_cased (c # cs) =
     (if islower c then (if previous_is_cased then c else upper_char c) # title_from True cs
      else if isupper c then (if previous_is_cased then lower_char c else c) # title_from True cs
      else c # title_from False cs)"

definition title :: "string \<Rightarrow> string" where
  "title s = title_from False s"

definition LOWER :: "string \<Rightarrow> string" where
  "LOWER s = map lower_char s"

text \<open>The decimal text of a number, as an f-string writes it.\<close>

fun str_nat :: "nat \<Rightarrow> string" where
  "str_nat n =
     (if n < 10 then [char_of (48 + n)]
      else str_nat (n div 10) @ [char_of (48 + n mod 10)])"

declare str_nat.simps [simp del]

definition str_int :: "int \<Rightarrow> string" where
  "str_int i = (if i < 0 then CHR ''-'' # str_nat (nat (- i)) else str_nat (nat i))"

definition quoted :: "string \<Rightarrow> string" where
  "quoted s = CHR 0x27 # s @ [CHR 0x27]"

datatype error = ValueError string | HTTPException nat string

section \<open>The tables\<close>

record items_row =
  i_id :: string
  i_item_name :: string

record materials_row =
  m_id :: string
  m_item_id :: string
  m_unit_measurement :: string
  m_material_cost :: int
  m_current_stock :: int
  m_supplier_id :: "string option"

record products_row =
  p_id :: string
  p_unit_price :: int

record product_materials_row =
  pm_product_id :: string
  pm_material_id :: string
  pm_used_quantity :: int
  pm_unit_cost :: int

record customers_row =
  c_id :: string
  c_firstname :: string
  c_lastname :: string
  c_contact_number :: string
  c_email :: string
  c_address :: string

record suppliers_row =
  s_id :: string
  s_firstname :: string
  s_lastname :: string
  s_contact_name :: string
  s_contact_number :: string
  s_email :: string
  s_address :: string

record stock_types_row =
  stt_id :: string
  stt_type_code :: string

record stock_transactions_row =
  st_id :: string
  st_stock_type_id :: string
  st_supplier_id :: string
  st_admin_id :: "string option"
  st_employee_id :: "string option"

record stock_transaction_items_row =
  sti_stock_transaction_id :: string
  sti_material_id :: string
  sti_quantity :: int

record order_statuses_row =
  os_id :: string
  os_status_code :: string

record order_transactions_row =
  ot_id :: string
  ot_customer_id :: string
  ot_status_id :: string
  ot_admin_id :: "string option"
  ot_total_amount :: int

record order_items_row =
  oi_order_id :: string
  oi_product_id :: string
  oi_quantity :: int
  oi_unit_price :: int

record db =
  items :: "items_row list"
  materials :: "materials_row list"
  products :: "products_row list"
  product_materials :: "product_materials_row list"
  customers :: "customers_row list"
  suppliers :: "suppliers_row list"
  stock_types :: "stock_types_row list"
  stock_transactions :: "stock_transactions_row list"
  stock_transaction_items :: "stock_transaction_items_row list"
  order_statuses :: "order_statuses_row list"
  order_transactions :: "order_transactions_row list"
  order_items :: "order_items_row list"

text \<open>
  \<open>INSERT ... RETURNING id\<close>: the database assigns the id of the new row. The default
  that computes it is in the schema, which the sources do not hold; the model assigns an
  id that no row of the table carries (one character longer than the longest of them).
\<close>

definition new_id :: "string list \<Rightarrow> string" where
  "new_id used = replicate (Suc (foldr max (map length used) 0)) (CHR ''#'')"

text \<open>\<open>fetchone()\<close>: the first row of the result, or \<open>None\<close>.\<close>

definition fetchone :: "'a list \<Rightarrow> 'a option" where
  "fetchone rows = (case rows of [] \<Rightarrow> None | r # _ \<Rightarrow> Some r)"

section \<open>The bill of materials\<close>

record material_input =
  mi_material_id :: string
  mi_used_quantity :: int
  mi_unit_cost :: "int option"

record product_materials_data =
  pmd_product_id :: string
  pmd_materials :: "material_input list"

text \<open>
  \<open>add_product_materials\<close> runs on the shared connection with no \<open>BEGIN\<close>: each
  statement is committed as it runs (DuckDB's autocommit), and nothing undoes the rows
  already inserted when a later material raises. The loop returns the database it
  reached together with the outcome.
\<close>

definition unit_cost_of :: "material_input \<Rightarrow> db \<Rightarrow> error + int" where
  "unit_cost_of material d =
     (case mi_unit_cost material of
        Some unit_cost \<Rightarrow> Inr unit_cost
      | None \<Rightarrow>
          (case fetchone (filter (\<lambda>m. m_id m = mi_material_id material) (materials d)) of
             None \<Rightarrow> Inl (ValueError (''Material with ID '' @ quoted (mi_material_id material) @
                                       '' not found.''))
           | Some result \<Rightarrow> Inr (m_material_cost result)))"

fun add_product_materials_loop ::
  "string \<Rightarrow> material_input list \<Rightarrow> db \<Rightarrow> (error + unit) \<times> db" where
  "add_product_materials_loop product_id [] d = (Inr (), d)"
| "add_product_materials_loop product_id (material # rest) d =
     (let existing = fetchone (filter (\<lambda>pm. pm_product_id pm = product_id \<and>
                                   pm_material_id pm = mi_material_id material)
                               (product_materials d))
      in if existing \<noteq> None then add_product_materials_loop product_id rest d
         else
           (case unit_cost_of material d of
              Inl e \<Rightarrow> (Inl e, d)
            | Inr unit_cost \<Rightarrow>
                add_product_materials_loop product_id rest
                  (d\<lparr>product_materials := product_materials d @
                       [\<lparr>pm_product_id = product_id, pm_material_id = mi_material_id material,
                         pm_used_quantity = mi_used_quantity material,
                         pm_unit_cost = unit_cost\<rparr>]\<rparr>)))"

definition add_product_materials :: "product_materials_data \<Rightarrow> db \<Rightarrow> (error + unit) \<times> db" where
  "add_product_materials data d = add_product_materials_loop (pmd_product_id data) (pmd_materials data) d"

text \<open>
  \<open>get_product_materials_by_product_id\<close>: the join of the product's lines with their
  material and its item, one dictionary for each row; no row, the empty list.
\<close>

record product_material_view =
  v_material_id :: string
  v_item_name :: string
  v_unit_measurement :: string
  v_used_quantity :: int
  v_unit_cost :: int

definition get_product_materials_by_product_id :: "string \<Rightarrow> db \<Rightarrow> product_material_view list" where
  "get_product_materials_by_product_id product_id d =
     [\<lparr>v_material_id = pm_material_id pm, v_item_name = i_item_name i,
       v_unit_measurement = m_unit_measurement m, v_used_quantity = pm_used_quantity pm,
       v_unit_cost = pm_unit_cost pm\<rparr>.
      pm \<leftarrow> product_materials d, pm_product_id pm = product_id,
      m \<leftarrow> materials d, pm_material_id pm = m_id m,
      i \<leftarrow> items d, m_item_id m = i_id i]"

section \<open>The order status registry\<close>

text \<open>The dictionary that \<open>update_order_status\<close> returns.\<close>

datatype reply = error_reply string | success_reply

definition update_order_status :: "string \<Rightarrow> string \<Rightarrow> db \<Rightarrow> reply \<times> db" where
  "update_order_status transaction_id new_status_code con =
     (case fetchone (filter (\<lambda>s. os_status_code s = new_status_code) (order_statuses con)) of
        None \<Rightarrow> (error_reply ''Status code not found.'', con)
      | Some status_row \<Rightarrow>
          (case fetchone (filter (\<lambda>t. ot_id t = transaction_id) (order_transactions con)) of
             None \<Rightarrow> (error_reply ''Transaction ID not found.'', con)
           | Some txn_row \<Rightarrow>
               (success_reply,
                con\<lparr>order_transactions :=
                      map (\<lambda>t. if ot_id t = transaction_id
                                then t\<lparr>ot_status_id := os_id status_row\<rparr> else t)
                          (order_transactions con)\<rparr>)))"

section \<open>Stock receiving\<close>

record supplier_input =
  sup_contact_name :: string
  sup_contact_number :: string
  sup_email :: string
  sup_firstname :: string
  sup_lastname :: string
  sup_address :: string

record stock_item =
  si_material_id :: string
  si_quantity :: int

record stock_data =
  sd_supplier_id :: "string option"
  sd_supplier :: "supplier_input option"
  sd_stock_type_id :: "string option"
  sd_admin_id :: "string option"
  sd_employee_id :: "string option"
  sd_items :: "stock_item list"

text \<open>The value of an optional string that the code has just tested to be present.\<close>

fun present :: "string option \<Rightarrow> string" where
  "present None = []"
| "present (Some s) = s"

text \<open>
  Step 0 of \<open>stock_materials\<close>: the supplier named by \<open>supplier_id\<close>, or a new
  supplier from the \<open>supplier\<close> details, refused when a supplier of that contact name
  exists.
\<close>

definition create_supplier :: "supplier_input \<Rightarrow> db \<Rightarrow> error + (string \<times> db)" where
  "create_supplier supplier d =
     (let contact_name = title (strip (sup_contact_name supplier));
          contact_number = strip (sup_contact_number supplier);
          email = strip (sup_email supplier);
          firstname = title (strip (sup_firstname supplier));
          lastname = title (strip (sup_lastname supplier));
          address = title (strip (sup_address supplier));
          existing = fetchone (filter (\<lambda>s. LOWER (s_contact_name s) = LOWER contact_name) (suppliers d))
      in if existing \<noteq> None
         then Inl (ValueError (''Supplier with contact name '' @ quoted contact_name @
                               '' already exists.''))
         else (let supplier_id = new_id (map s_id (suppliers d))
               in Inr (supplier_id,
                       d\<lparr>suppliers := suppliers d @
                           [\<lparr>s_id = supplier_id, s_firstname = firstname, s_lastname = lastname,
                             s_contact_name = contact_name, s_contact_number = contact_number,
                             s_email = email, s_address = address\<rparr>]\<rparr>)))"

definition resolve_supplier :: "stock_data \<Rightarrow> db \<Rightarrow> error + (string \<times> db)" where
  "resolve_supplier data d =
     (if falsy (sd_supplier_id data) then
        (case sd_supplier data of
           Some supplier \<Rightarrow> create_supplier supplier d
         | None \<Rightarrow> Inl (ValueError ''Either supplier_id or supplier details must be provided.''))
      else Inr (present (sd_supplier_id data), d))"

text \<open>Step 1: the stock type given, or the id of the type whose code is STT001.\<close>

definition resolve_stock_type :: "stock_data \<Rightarrow> db \<Rightarrow> error + string" where
  "resolve_stock_type data d =
     (if falsy (sd_stock_type_id data) then
        (case fetchone (filter (\<lambda>t. stt_type_code t = ''STT001'') (stock_types d)) of
           None \<Rightarrow> Inl (ValueError (''Stock type '' @ quoted ''STT001'' @
                                     '' not found in stock_types table.''))
         | Some result \<Rightarrow> Inr (stt_id result))
      else Inr (present (sd_stock_type_id data)))"

text \<open>Step 3: one ledger row and one increment of \<open>current_stock\<close> for each line.\<close>

fun stock_items_loop :: "string \<Rightarrow> stock_item list \<Rightarrow> db \<Rightarrow> db" where
  "stock_items_loop stock_transaction_id [] d = d"
| "stock_items_loop stock_transaction_id (item # rest) d =
     stock_items_loop stock_transaction_id rest
       (d\<lparr>stock_transaction_items := stock_transaction_items d @
             [\<lparr>sti_stock_transaction_id = stock_transaction_id,
               sti_material_id = si_material_id item, sti_quantity = si_quantity item\<rparr>],
          materials := map (\<lambda>m. if m_id m = si_material_id item
                                 then m\<lparr>m_current_stock := m_current_stock m + si_quantity item\<rparr>
                                 else m) (materials d)\<rparr>)"

text \<open>The body of the \<open>try\<close> block, run after \<open>BEGIN\<close>.\<close>

definition stock_materials_try :: "stock_data \<Rightarrow> db \<Rightarrow> error + (string \<times> db)" where
  "stock_materials_try data d =
     (case resolve_supplier data d of
        Inl e \<Rightarrow> Inl e
      | Inr (supplier_id, d1) \<Rightarrow>
          (case resolve_stock_type data d1 of
             Inl e \<Rightarrow> Inl e
           | Inr stock_type_id \<Rightarrow>
               (if falsy (sd_admin_id data) \<and> falsy (sd_employee_id data)
                then Inl (ValueError ''Either admin_id or employee_id must be provided.'')
                else (let stock_transaction_id = new_id (map st_id (stock_transactions d1));
                          d2 = d1\<lparr>stock_transactions := stock_transactions d1 @
                                   [\<lparr>st_id = stock_transaction_id, st_stock_type_id = stock_type_id,
                                     st_supplier_id = supplier_id, st_admin_id = sd_admin_id data,
                                     st_employee_id = sd_employee_id data\<rparr>]\<rparr>
                      in Inr (stock_transaction_id,
                              stock_items_loop stock_transaction_id (sd_items data) d2)))))"

text \<open>
  \<open>stock_materials\<close>: everything runs between \<open>BEGIN\<close> and \<open>commit\<close>; the
  \<open>except\<close> branch rolls back to the database at \<open>BEGIN\<close> and raises again.
  The result is the outcome and the database that is left.
\<close>

definition stock_materials :: "stock_data \<Rightarrow> db \<Rightarrow> (error + string) \<times> db" where
  "stock_materials data d =
     (case stock_materials_try data d of
        Inl e \<Rightarrow> (Inl e, d)
      | Inr (stock_transaction_id, d') \<Rightarrow> (Inr stock_transaction_id, d'))"

section \<open>Order fulfillment\<close>

record customer_input =
  cu_firstname :: string
  cu_lastname :: string
  cu_contact_number :: string
  cu_email :: string
  cu_address :: string

record order_item =
  it_product_id :: string
  it_quantity :: int

record order_data =
  od_customer_id :: "string option"
  od_customer :: "customer_input option"
  od_status_id :: string
  od_admin_id :: "string option"
  od_items :: "order_item list"

text \<open>
  The dictionary \<open>material_requirements\<close>: a Python dict keeps its keys in insertion
  order, and assigning to a key that is there replaces the value in place.
\<close>

record requirement =
  needed :: int
  available :: int
  item_name :: string
  unit :: string

fun dict_set :: "('k \<times> 'v) list \<Rightarrow> 'k \<Rightarrow> 'v \<Rightarrow> ('k \<times> 'v) list" where
  "dict_set [] k v = [(k, v)]"
| "dict_set ((k', v') # kvs) k v =
     (if k' = k then (k', v) # kvs else (k', v') # dict_set kvs k v)"

text \<open>\<open>d[k][field] += x\<close> on a key that is there.\<close>

fun dict_modify :: "('k \<times> 'v) list \<Rightarrow> 'k \<Rightarrow> ('v \<Rightarrow> 'v) \<Rightarrow> ('k \<times> 'v) list" where
  "dict_modify [] k f = []"
| "dict_modify ((k', v') # kvs) k f =
     (if k' = k then (k', f v') # kvs else (k', v') # dict_modify kvs k f)"

text \<open>The rows of the pre-check query for one product.\<close>

definition precheck_rows :: "string \<Rightarrow> db \<Rightarrow> (string \<times> int \<times> int \<times> string \<times> string) list" where
  "precheck_rows product_id d =
     [(pm_material_id pm, pm_used_quantity pm, m_current_stock m, i_item_name i,
       m_unit_measurement m).
      pm \<leftarrow> product_materials d, pm_product_id pm = product_id,
      m \<leftarrow> materials d, pm_material_id pm = m_id m,
      i \<leftarrow> items d, m_item_id m = i_id i]"

text \<open>
  The inner loop of step 1. Each row assigns a new accumulator with \<open>needed = 0\<close> to
  its material, whether or not the material has one already, and then adds the row's
  requirement to it.
\<close>

fun require_rows ::
  "int \<Rightarrow> (string \<times> int \<times> int \<times> string \<times> string) list \<Rightarrow>
   (string \<times> requirement) list \<Rightarrow> (string \<times> requirement) list" where
  "require_rows quantity [] material_requirements = material_requirements"
| "require_rows quantity ((material_id, used_qty, current_stock, name, u) # rest)
     material_requirements =
     (let total_needed = used_qty * quantity;
          assigned = dict_set material_requirements material_id
                       \<lparr>needed = 0, available = current_stock, item_name = name, unit = u\<rparr>;
          added = dict_modify assigned material_id (\<lambda>v. v\<lparr>needed := needed v + total_needed\<rparr>)
      in require_rows quantity rest added)"

fun require_items ::
  "order_item list \<Rightarrow> db \<Rightarrow> (string \<times> requirement) list \<Rightarrow> (string \<times> requirement) list" where
  "require_items [] d material_requirements = material_requirements"
| "require_items (item # rest) d material_requirements =
     require_items rest d
       (require_rows (it_quantity item) (precheck_rows (it_product_id item) d)
          material_requirements)"

definition lacking_line :: "requirement \<Rightarrow> string" where
  "lacking_line v =
     item_name v @ '' (Need: '' @ str_int (needed v) @ '' '' @ unit v @
     '', Available: '' @ str_int (available v) @ '' '' @ unit v @ '')''"

definition lacking_materials :: "(string \<times> requirement) list \<Rightarrow> string list" where
  "lacking_materials material_requirements =
     [lacking_line v. (k, v) \<leftarrow> material_requirements, needed v > available v]"

fun join :: "string \<Rightarrow> string list \<Rightarrow> string" where
  "join sep [] = []"
| "join sep [x] = x"
| "join sep (x # y # ys) = x @ sep @ join sep (y # ys)"

text \<open>The detail of the HTTP 400 error; the bullet is U+2022, three bytes in UTF-8.\<close>

definition formatted_message :: "string list \<Rightarrow> string" where
  "formatted_message lacking =
     ''Insufficient material stock for the following materials:'' @ [CHR 0x0A, CHR 0x0A] @
     join [CHR 0x0A] (map (\<lambda>item. [CHR 0xE2, CHR 0x80, CHR 0xA2] @ '' '' @ item) lacking)"

text \<open>
  Step 3, the inner loop: for each line of the product's bill of materials, a stock
  transaction of type STT002, its item, and the decrement of \<open>current_stock\<close>.
\<close>

fun consume_materials ::
  "string option \<Rightarrow> int \<Rightarrow> product_materials_row list \<Rightarrow> db \<Rightarrow> error + db" where
  "consume_materials admin_id quantity [] d = Inr d"
| "consume_materials admin_id quantity (pm # rest) d =
     (let material_id = pm_material_id pm;
          total_used = pm_used_quantity pm * quantity;
          no_supplier = ValueError (''No supplier found for material ID '' @ material_id @ ''.'')
      in case fetchone (filter (\<lambda>m. m_id m = material_id) (materials d)) of
           None \<Rightarrow> Inl no_supplier
         | Some supplier \<Rightarrow>
             (if falsy (m_supplier_id supplier) then Inl no_supplier
              else
                (let supplier_id = present (m_supplier_id supplier);
                     stock_transaction_id = new_id (map st_id (stock_transactions d))
                 in consume_materials admin_id quantity rest
                      (d\<lparr>stock_transactions := stock_transactions d @
                            [\<lparr>st_id = stock_transaction_id, st_stock_type_id = ''STT002'',
                              st_supplier_id = supplier_id, st_admin_id = admin_id,
                              st_employee_id = None\<rparr>],
                         stock_transaction_items := stock_transaction_items d @
                            [\<lparr>sti_stock_transaction_id = stock_transaction_id,
                              sti_material_id = material_id, sti_quantity = total_used\<rparr>],
                         materials :=
                            map (\<lambda>m. if m_id m = material_id
                                      then m\<lparr>m_current_stock := m_current_stock m - total_used\<rparr>
                                      else m) (materials d)\<rparr>))))"

text \<open>Step 3, the outer loop, with the running \<open>total_amount\<close>.\<close>

fun process_order_items ::
  "string \<Rightarrow> string option \<Rightarrow> order_item list \<Rightarrow> int \<Rightarrow> db \<Rightarrow> error + (int \<times> db)" where
  "process_order_items transaction_id admin_id [] total_amount d = Inr (total_amount, d)"
| "process_order_items transaction_id admin_id (item # rest) total_amount d =
     (let product_id = it_product_id item;
          quantity = it_quantity item
      in case fetchone (filter (\<lambda>p. p_id p = product_id) (products d)) of
           None \<Rightarrow> Inl (ValueError (''Product ID '' @ product_id @ '' not found.''))
         | Some p \<Rightarrow>
             (let unit_price = p_unit_price p;
                  line_total = quantity * unit_price
              in case consume_materials admin_id quantity
                        (filter (\<lambda>pm. pm_product_id pm = product_id) (product_materials d)) d of
                   Inl e \<Rightarrow> Inl e
                 | Inr d1 \<Rightarrow>
                     process_order_items transaction_id admin_id rest (total_amount + line_total)
                       (d1\<lparr>order_items := order_items d1 @
                             [\<lparr>oi_order_id = transaction_id, oi_product_id = product_id,
                               oi_quantity = quantity, oi_unit_price = unit_price\<rparr>]\<rparr>)))"

text \<open>The body of the \<open>try\<close> block, run after \<open>BEGIN\<close>, for a resolved customer.\<close>

definition create_order_try :: "order_data \<Rightarrow> string \<Rightarrow> db \<Rightarrow> error + (string \<times> db)" where
  "create_order_try data customer_id d =
     (let material_requirements = require_items (od_items data) d [];
          lacking = lacking_materials material_requirements
      in if lacking \<noteq> [] then Inl (HTTPException 400 (formatted_message lacking))
         else
           (let transaction_id = new_id (map ot_id (order_transactions d));
                d1 = d\<lparr>order_transactions := order_transactions d @
                         [\<lparr>ot_id = transaction_id, ot_customer_id = customer_id,
                           ot_status_id = od_status_id data, ot_admin_id = od_admin_id data,
                           ot_total_amount = 0\<rparr>]\<rparr>
            in case process_order_items transaction_id (od_admin_id data) (od_items data) 0 d1 of
                 Inl e \<Rightarrow> Inl e
               | Inr (total_amount, d2) \<Rightarrow>
                   Inr (transaction_id,
                        d2\<lparr>order_transactions :=
                              map (\<lambda>t. if ot_id t = transaction_id
                                        then t\<lparr>ot_total_amount := total_amount\<rparr> else t)
                                  (order_transactions d2)\<rparr>)))"

text \<open>
  Step 0 runs before the \<open>try\<close> and before \<open>BEGIN\<close>: the connection is in
  autocommit there, so the customer row is committed when the statement has run.
\<close>

definition create_customer :: "customer_input \<Rightarrow> db \<Rightarrow> string \<times> db" where
  "create_customer customer_data d =
     (let customer_id = new_id (map c_id (customers d))
      in (customer_id,
          d\<lparr>customers := customers d @
              [\<lparr>c_id = customer_id,
                c_firstname = title (strip (cu_firstname customer_data)),
                c_lastname = title (strip (cu_lastname customer_data)),
                c_contact_number = strip (cu_contact_number customer_data),
                c_email = strip (cu_email customer_data),
                c_address = title (strip (cu_address customer_data))\<rparr>]\<rparr>))"

definition resolve_customer :: "order_data \<Rightarrow> db \<Rightarrow> error + (string \<times> db)" where
  "resolve_customer data d =
     (if falsy (od_customer_id data) then
        (case od_customer data of
           Some customer_data \<Rightarrow> Inr (create_customer customer_data d)
         | None \<Rightarrow> Inl (ValueError ''Either customer_id or customer data must be provided.''))
      else Inr (present (od_customer_id data), d))"

text \<open>
  \<open>create_order_transaction\<close>: step 0, then \<open>BEGIN\<close>, the \<open>try\<close> block and
  \<open>commit\<close>; the \<open>except\<close> branch executes \<open>ROLLBACK\<close>, which restores the database
  as it was at \<open>BEGIN\<close>, that is after step 0, and raises again.
\<close>

definition create_order_transaction :: "order_data \<Rightarrow> db \<Rightarrow> (error + string) \<times> db" where
  "create_order_transaction data d =
     (case resolve_customer data d of
        Inl e \<Rightarrow> (Inl e, d)
      | Inr (customer_id, d0) \<Rightarrow>
          (case create_order_try data customer_id d0 of
             Inl e \<Rightarrow> (Inl e, d0)
           | Inr (transaction_id, d') \<Rightarrow> (Inr transaction_id, d')))"

section \<open>Notions used in the statements\<close>

text \<open>The lines of the bill of materials for one pair of product and material.\<close>

definition bom_lines :: "db \<Rightarrow> string \<Rightarrow> string \<Rightarrow> product_materials_row list" where
  "bom_lines d product_id material_id =
     filter (\<lambda>pm. pm_product_id pm = product_id \<and> pm_material_id pm = material_id)
       (product_materials d)"

subsection \<open>A small database\<close>

text \<open>
  Two materials, steel (4 kg in stock, received in the stock transaction T1) and glue
  (none in stock); product A uses 2 kg of steel, B uses 3 kg of steel, D uses 3 kg of
  steel and one piece of glue, C has no bill of materials.
\<close>

definition empty_db :: db where
  "empty_db =
     \<lparr>items = [], materials = [], products = [], product_materials = [], customers = [],
      suppliers = [], stock_types = [], stock_transactions = [], stock_transaction_items = [],
      order_statuses = [], order_transactions = [], order_items = []\<rparr>"

definition shop :: db where
  "shop = empty_db\<lparr>
     items := [\<lparr>i_id = ''I1'', i_item_name = ''Steel''\<rparr>,
               \<lparr>i_id = ''I2'', i_item_name = ''Glue''\<rparr>],
     materials :=
       [\<lparr>m_id = ''M'', m_item_id = ''I1'', m_unit_measurement = ''kg'', m_material_cost = 7,
         m_current_stock = 4, m_supplier_id = Some ''S1''\<rparr>,
        \<lparr>m_id = ''N'', m_item_id = ''I2'', m_unit_measurement = ''pc'', m_material_cost = 1,
         m_current_stock = 0, m_supplier_id = Some ''S1''\<rparr>],
     products := [\<lparr>p_id = ''A'', p_unit_price = 10\<rparr>, \<lparr>p_id = ''B'', p_unit_price = 20\<rparr>,
                  \<lparr>p_id = ''C'', p_unit_price = 5\<rparr>, \<lparr>p_id = ''D'', p_unit_price = 30\<rparr>],
     product_materials :=
       [\<lparr>pm_product_id = ''A'', pm_material_id = ''M'', pm_used_quantity = 2, pm_unit_cost = 7\<rparr>,
        \<lparr>pm_product_id = ''B'', pm_material_id = ''M'', pm_used_quantity = 3, pm_unit_cost = 7\<rparr>,
        \<lparr>pm_product_id = ''D'', pm_material_id = ''M'', pm_used_quantity = 3, pm_unit_cost = 7\<rparr>,
        \<lparr>pm_product_id = ''D'', pm_material_id = ''N'', pm_used_quantity = 1, pm_unit_cost = 1\<rparr>],
     customers :=
       [\<lparr>c_id = ''C1'', c_firstname = ''Ana'', c_lastname = ''Cruz'', c_contact_number = ''1'',
         c_email = ''ana@x'', c_address = ''Cebu''\<rparr>],
     suppliers :=
       [\<lparr>s_id = ''S1'', s_firstname = ''Ben'', s_lastname = ''Uy'', s_contact_name = ''Ben Uy'',
         s_contact_number = ''2'', s_email = ''ben@x'', s_address = ''Davao''\<rparr>],
     stock_types := [\<lparr>stt_id = ''ST1'', stt_type_code = ''STT001''\<rparr>,
                     \<lparr>stt_id = ''ST2'', stt_type_code = ''STT002''\<rparr>],
     stock_transactions :=
       [\<lparr>st_id = ''T1'', st_stock_type_id = ''ST1'', st_supplier_id = ''S1'',
         st_admin_id = Some ''AD1'', st_employee_id = None\<rparr>],
     stock_transaction_items :=
       [\<lparr>sti_stock_transaction_id = ''T1'', sti_material_id = ''M'', sti_quantity = 4\<rparr>],
     order_statuses := [\<lparr>os_id = ''OS1'', os_status_code = ''PENDING''\<rparr>,
                        \<lparr>os_id = ''OS2'', os_status_code = ''DONE''\<rparr>],
     order_transactions :=
       [\<lparr>ot_id = ''O1'', ot_customer_id = ''C1'', ot_status_id = ''OS2'',
         ot_admin_id = Some ''AD1'', ot_total_amount = 10\<rparr>],
     order_items :=
       [\<lparr>oi_order_id = ''O1'', oi_product_id = ''C'', oi_quantity = 2, oi_unit_price = 5\<rparr>]\<rparr>"

subsection \<open>Calls on the small database\<close>

text \<open>
  A receipt that names an administrator and an employee; a receipt from a new supplier
  that names nobody (the employee is the empty string); a receipt with a negative and a
  zero quantity; an order for minus one unit of A.
\<close>

definition receipt_by_both :: stock_data where
  "receipt_by_both =
     \<lparr>sd_supplier_id = Some ''S1'', sd_supplier = None, sd_stock_type_id = None,
      sd_admin_id = Some ''AD1'', sd_employee_id = Some ''E1'',
      sd_items = [\<lparr>si_material_id = ''M'', si_quantity = 1\<rparr>]\<rparr>"

definition receipt_by_nobody :: stock_data where
  "receipt_by_nobody =
     \<lparr>sd_supplier_id = None,
      sd_supplier = Some \<lparr>sup_contact_name = '' ace metals '', sup_contact_number = ''3'',
                          sup_email = ''ace@x'', sup_firstname = ''al'', sup_lastname = ''go'',
                          sup_address = ''iloilo''\<rparr>,
      sd_stock_type_id = None, sd_admin_id = None, sd_employee_id = Some [],
      sd_items = [\<lparr>si_material_id = ''M'', si_quantity = 5\<rparr>]\<rparr>"

definition negative_receipt :: stock_data where
  "negative_receipt =
     \<lparr>sd_supplier_id = Some ''S1'', sd_supplier = None, sd_stock_type_id = Some ''ST1'',
      sd_admin_id = None, sd_employee_id = Some ''E1'',
      sd_items = [\<lparr>si_material_id = ''M'', si_quantity = - 5\<rparr>,
                  \<lparr>si_material_id = ''N'', si_quantity = 0\<rparr>]\<rparr>"



definition bare_order :: order_data where
  "bare_order =
     \<lparr>od_customer_id = Some ''C1'', od_customer = None, od_status_id = ''OS1'',
      od_admin_id = Some ''AD1'', od_items = [\<lparr>it_product_id = ''C'', it_quantity = 3\<rparr>]\<rparr>"

text \<open>
  Orders of the customer C1 for one A and one B, and for one A and one D: both products
  of each order use steel, 5 kg in all. An order for one D from a customer given inline.
\<close>

definition shared_steel_order :: order_data where
  "shared_steel_order =
     \<lparr>od_customer_id = Some ''C1'', od_customer = None, od_status_id = ''OS1'',
      od_admin_id = Some ''AD1'',
      od_items = [\<lparr>it_product_id = ''A'', it_quantity = 1\<rparr>,
                  \<lparr>it_product_id = ''B'', it_quantity = 1\<rparr>]\<rparr>"

definition steel_and_glue_order :: order_data where
  "steel_and_glue_order =
     \<lparr>od_customer_id = Some ''C1'', od_customer = None, od_status_id = ''OS1'',
      od_admin_id = Some ''AD1'',
      od_items = [\<lparr>it_product_id = ''A'', it_quantity = 1\<rparr>,
                  \<lparr>it_product_id = ''D'', it_quantity = 1\<rparr>]\<rparr>"

definition walk_in_order :: order_data where
  "walk_in_order =
     \<lparr>od_customer_id = None,
      od_customer = Some \<lparr>cu_firstname = ''lea'', cu_lastname = ''tan'', cu_contact_number = ''4'',
                          cu_email = ''lea@x'', cu_address = ''bohol''\<rparr>,
      od_status_id = ''OS1'', od_admin_id = Some ''AD1'',
      od_items = [\<lparr>it_product_id = ''D'', it_quantity = 1\<rparr>]\<rparr>"

text \<open>A receipt of 5 kg of steel whose caller names the stock type STT002.\<close>

definition mislabelled_receipt :: stock_data where
  "mislabelled_receipt =
     \<lparr>sd_supplier_id = Some ''S1'', sd_supplier = None, sd_stock_type_id = Some ''STT002'',
      sd_admin_id = Some ''AD1'', sd_employee_id = None,
      sd_items = [\<lparr>si_material_id = ''M'', si_quantity = 5\<rparr>]\<rparr>"

subsection \<open>The demand of an order, as the specification aggregates it\<close>

text \<open>
  The requirement for a material summed over all the lines of the order: for each order
  line and each line of the bill of materials of its product that names the material,
  the used quantity times the ordered quantity.
\<close>

definition summed_demand :: "order_item list \<Rightarrow> db \<Rightarrow> string \<Rightarrow> int" where
  "summed_demand its d material_id =
     sum_list [pm_used_quantity pm * it_quantity item.
               item \<leftarrow> its, pm \<leftarrow> product_materials d,
               pm_product_id pm = it_product_id item \<and> pm_material_id pm = material_id]"

subsection \<open>The rows of an order\<close>

text \<open>
  The unit price that the order processing reads for a product (the first row of
  \<open>products\<close> with the id), the order line written for a line of the order, and the
  total of the order: the sum of quantity times unit price over its lines.
\<close>

definition unit_price_of :: "db \<Rightarrow> string \<Rightarrow> int" where
  "unit_price_of d product_id =
     (case fetchone (filter (\<lambda>p. p_id p = product_id) (products d)) of
        None \<Rightarrow> 0
      | Some p \<Rightarrow> p_unit_price p)"

definition order_line :: "db \<Rightarrow> string \<Rightarrow> order_item \<Rightarrow> order_items_row" where
  "order_line d transaction_id item =
     \<lparr>oi_order_id = transaction_id, oi_product_id = it_product_id item,
      oi_quantity = it_quantity item, oi_unit_price = unit_price_of d (it_product_id item)\<rparr>"

definition order_total :: "db \<Rightarrow> order_item list \<Rightarrow> int" where
  "order_total d its =
     sum_list (map (\<lambda>item. it_quantity item * unit_price_of d (it_product_id item)) its)"

subsection \<open>The ledger and the counter\<close>

text \<open>
  A ledger entry is a row of \<open>stock_transaction_items\<close> together with the stock
  transaction it belongs to. \<open>create_order_transaction\<close> marks the transactions it
  writes with the stock type STT002, and nothing else in a row tells a consumption from a
  receipt: an entry counts as a consumption when its transaction carries that type, and
  as a receipt otherwise. The signed sum for a material adds the receipts and subtracts
  the consumptions. An item whose transaction is missing has no direction and counts for
  nothing; \<open>items_have_transactions\<close> says there is no such item.
\<close>

definition is_consumption :: "stock_transactions_row \<Rightarrow> bool" where
  "is_consumption t = (st_stock_type_id t = ''STT002'')"

definition signed_quantity :: "db \<Rightarrow> stock_transaction_items_row \<Rightarrow> int" where
  "signed_quantity d it =
     (case fetchone (filter (\<lambda>t. st_id t = sti_stock_transaction_id it) (stock_transactions d)) of
        None \<Rightarrow> 0
      | Some t \<Rightarrow> if is_consumption t then - sti_quantity it else sti_quantity it)"

definition ledger_sum :: "db \<Rightarrow> string \<Rightarrow> int" where
  "ledger_sum d material_id =
     sum_list (map (signed_quantity d)
       (filter (\<lambda>it. sti_material_id it = material_id) (stock_transaction_items d)))"

definition ledger_invariant :: "db \<Rightarrow> bool" where
  "ledger_invariant d = (\<forall>m \<in> set (materials d). m_current_stock m = ledger_sum d (m_id m))"

definition items_have_transactions :: "db \<Rightarrow> bool" where
  "items_have_transactions d =
     (\<forall>it \<in> set (stock_transaction_items d).
        \<exists>t \<in> set (stock_transactions d). st_id t = sti_stock_transaction_id it)"

section \<open>Lookups\<close>

lemma fetchone_filter_Some:
  "fetchone (filter P xs) = Some x \<Longrightarrow> x \<in> set xs \<and> P x"
  by (induction xs) (auto simp: fetchone_def split: if_splits)

lemma fetchone_filter_None: "(fetchone (filter P xs) = None) = (\<forall>x \<in> set xs. \<not> P x)"
  by (induction xs) (auto simp: fetchone_def)

lemma falsy_present: "\<not> falsy x \<Longrightarrow> x = Some (present x)"
  by (cases x) simp_all

text \<open>The id that the database assigns is not the id of a row of the table.\<close>

lemma length_le_foldr_max: "x \<in> set used \<Longrightarrow> length x \<le> foldr max (map length used) 0"
  by (induction used) auto

lemma new_id_fresh: "new_id used \<notin> set used"
proof
  assume "new_id used \<in> set used"
  from length_le_foldr_max [OF this] show False by (simp add: new_id_def)
qed

section \<open>The bill of materials: insertion\<close>

lemma add_loop_step:
  "add_product_materials_loop p (x # xs) d =
     (if bom_lines d p (mi_material_id x) \<noteq> [] then add_product_materials_loop p xs d
      else case unit_cost_of x d of
             Inl e \<Rightarrow> (Inl e, d)
           | Inr c \<Rightarrow> add_product_materials_loop p xs
                (d\<lparr>product_materials := product_materials d @
                    [\<lparr>pm_product_id = p, pm_material_id = mi_material_id x,
                      pm_used_quantity = mi_used_quantity x, pm_unit_cost = c\<rparr>]\<rparr>))"
  by (simp add: bom_lines_def fetchone_def split: list.splits)

declare add_product_materials_loop.simps(2) [simp del]

text \<open>A batch is run material by material: the second part starts where the first ended.\<close>

lemma add_loop_append:
  "add_product_materials_loop p (xs @ ys) d =
     (case add_product_materials_loop p xs d of
        (Inl e, d') \<Rightarrow> (Inl e, d')
      | (Inr u, d') \<Rightarrow> add_product_materials_loop p ys d')"
proof (induction xs arbitrary: d)
  case Nil
  show ?case by simp
next
  case (Cons x xs)
  show ?case
    unfolding append_Cons add_loop_step
    by (simp add: Cons.IH split: sum.splits)
qed

text \<open>
  Whatever the outcome, the rows that were there stay as they are, in place; the rows
  added are for the product of the call and for pairs that had no line.
\<close>

lemma add_loop_grows:
  "add_product_materials_loop p xs d = (r, d') \<Longrightarrow>
   \<exists>new. d' = d\<lparr>product_materials := product_materials d @ new\<rparr> \<and>
         (\<forall>row \<in> set new. pm_product_id row = p \<and> bom_lines d p (pm_material_id row) = [])"
proof (induction xs arbitrary: d)
  case Nil
  then have "d' = d\<lparr>product_materials := product_materials d @ []\<rparr>" by simp
  then show ?case by (metis empty_iff empty_set)
next
  case (Cons x xs)
  show ?case
  proof (cases "bom_lines d p (mi_material_id x) \<noteq> []")
    case True
    with Cons.prems have "add_product_materials_loop p xs d = (r, d')"
      by (simp add: add_loop_step)
    then show ?thesis by (rule Cons.IH)
  next
    case False
    note absent = this
    show ?thesis
    proof (cases "unit_cost_of x d")
      case (Inl e)
      with absent Cons.prems have "d' = d\<lparr>product_materials := product_materials d @ []\<rparr>"
        by (simp add: add_loop_step)
      then show ?thesis by (metis empty_iff empty_set)
    next
      case (Inr c)
      define row where "row = \<lparr>pm_product_id = p, pm_material_id = mi_material_id x,
                      pm_used_quantity = mi_used_quantity x, pm_unit_cost = c\<rparr>"
      define d1 where "d1 = d\<lparr>product_materials := product_materials d @ [row]\<rparr>"
      from absent Inr Cons.prems have "add_product_materials_loop p xs d1 = (r, d')"
        by (simp add: add_loop_step d1_def row_def)
      from Cons.IH [OF this] obtain new where
        d': "d' = d1\<lparr>product_materials := product_materials d1 @ new\<rparr>" and
        new: "\<forall>row \<in> set new. pm_product_id row = p \<and> bom_lines d1 p (pm_material_id row) = []"
        by blast
      have "d' = d\<lparr>product_materials := product_materials d @ (row # new)\<rparr>"
        by (simp add: d' d1_def)
      moreover have "\<forall>r \<in> set (row # new).
          pm_product_id r = p \<and> bom_lines d p (pm_material_id r) = []"
        using new absent by (auto simp: d1_def bom_lines_def row_def)
      ultimately show ?thesis by blast
    qed
  qed
qed

lemma add_loop_keeps_lines:
  assumes "add_product_materials_loop p xs d = (r, d')" and "bom_lines d q m \<noteq> []"
  shows "bom_lines d' q m \<noteq> []"
proof -
  from add_loop_grows [OF assms(1)] obtain new where
    "d' = d\<lparr>product_materials := product_materials d @ new\<rparr>" by blast
  with assms(2) show ?thesis by (simp add: bom_lines_def)
qed

text \<open>After a batch that went through, every material of it has a line.\<close>

lemma add_loop_lines:
  "add_product_materials_loop p xs d = (Inr u, d') \<Longrightarrow> x \<in> set xs \<Longrightarrow>
   bom_lines d' p (mi_material_id x) \<noteq> []"
proof (induction xs arbitrary: d)
  case Nil
  then show ?case by simp
next
  case (Cons y ys)
  show ?case
  proof (cases "bom_lines d p (mi_material_id y) \<noteq> []")
    case True
    with Cons.prems(1) have run: "add_product_materials_loop p ys d = (Inr u, d')"
      by (simp add: add_loop_step)
    show ?thesis
    proof (cases "x = y")
      case True
      with \<open>bom_lines d p (mi_material_id y) \<noteq> []\<close> run show ?thesis
        by (metis add_loop_keeps_lines)
    next
      case False
      with Cons.prems(2) have "x \<in> set ys" by simp
      with run show ?thesis by (rule Cons.IH)
    qed
  next
    case False
    with Cons.prems(1) obtain c where c: "unit_cost_of y d = Inr c"
      by (cases "unit_cost_of y d") (simp_all add: add_loop_step)
    define d1 where "d1 = d\<lparr>product_materials := product_materials d @
                    [\<lparr>pm_product_id = p, pm_material_id = mi_material_id y,
                      pm_used_quantity = mi_used_quantity y, pm_unit_cost = c\<rparr>]\<rparr>"
    from False c Cons.prems(1) have run: "add_product_materials_loop p ys d1 = (Inr u, d')"
      by (simp add: add_loop_step d1_def)
    have "bom_lines d1 p (mi_material_id y) \<noteq> []"
      by (simp add: d1_def bom_lines_def)
    then show ?thesis
      using run Cons.prems(2) Cons.IH [OF run] add_loop_keeps_lines [OF run]
      by (cases "x = y") auto
  qed
qed

text \<open>
  C5. Adding a line for a pair (product, material) that has a line changes nothing: the
  call returns normally and the database is the one it started from. So when a pair with
  no line is added and then added again, with whatever quantity and cost the second time,
  the second call is a no-op, alone or in the same batch, and the pair has exactly the one
  row of the first insert. When the unit cost is omitted on a fresh insert, the row takes
  the \<open>material_cost\<close> that the material has at that moment.
\<close>

theorem add_product_materials_skips_existing_line:
  "(bom_lines d p (mi_material_id mat) \<noteq> [] \<longrightarrow>
      add_product_materials \<lparr>pmd_product_id = p, pmd_materials = [mat]\<rparr> d = (Inr (), d)) \<and>
   (bom_lines d p (mi_material_id mat) = [] \<and> unit_cost_of mat d = Inr c \<and>
    mi_material_id again = mi_material_id mat \<longrightarrow>
      (let row = \<lparr>pm_product_id = p, pm_material_id = mi_material_id mat,
                  pm_used_quantity = mi_used_quantity mat, pm_unit_cost = c\<rparr>;
           d1 = d\<lparr>product_materials := product_materials d @ [row]\<rparr>
       in add_product_materials \<lparr>pmd_product_id = p, pmd_materials = [mat]\<rparr> d = (Inr (), d1) \<and>
          add_product_materials \<lparr>pmd_product_id = p, pmd_materials = [again]\<rparr> d1 = (Inr (), d1) \<and>
          add_product_materials \<lparr>pmd_product_id = p, pmd_materials = [mat, again]\<rparr> d = (Inr (), d1) \<and>
          bom_lines d1 p (mi_material_id mat) = [row])) \<and>
   (bom_lines d p (mi_material_id mat) = [] \<and> mi_unit_cost mat = None \<and>
    fetchone (filter (\<lambda>m. m_id m = mi_material_id mat) (materials d)) = Some m \<longrightarrow>
      add_product_materials \<lparr>pmd_product_id = p, pmd_materials = [mat]\<rparr> d =
        (Inr (), d\<lparr>product_materials := product_materials d @
                     [\<lparr>pm_product_id = p, pm_material_id = mi_material_id mat,
                       pm_used_quantity = mi_used_quantity mat,
                       pm_unit_cost = m_material_cost m\<rparr>]\<rparr>))"
  by (simp add: add_product_materials_def add_loop_step Let_def bom_lines_def unit_cost_of_def)

theorem add_product_materials_skips_existing_line_witness:
  "add_product_materials \<lparr>pmd_product_id = ''A'', pmd_materials =
       [\<lparr>mi_material_id = ''M'', mi_used_quantity = 9, mi_unit_cost = Some 1\<rparr>]\<rparr> shop =
     (Inr (), shop) \<and>
   add_product_materials \<lparr>pmd_product_id = ''C'', pmd_materials =
       [\<lparr>mi_material_id = ''N'', mi_used_quantity = 2, mi_unit_cost = None\<rparr>,
        \<lparr>mi_material_id = ''N'', mi_used_quantity = 5, mi_unit_cost = Some 9\<rparr>]\<rparr> shop =
     (Inr (), shop\<lparr>product_materials := product_materials shop @
        [\<lparr>pm_product_id = ''C'', pm_material_id = ''N'', pm_used_quantity = 2,
          pm_unit_cost = 1\<rparr>]\<rparr>)"
proof -
  have a: "bom_lines shop ''A'' ''M'' \<noteq> []" by code_simp
  have b: "bom_lines shop ''C'' ''N'' = []" by code_simp
  have c: "unit_cost_of \<lparr>mi_material_id = ''N'', mi_used_quantity = 2, mi_unit_cost = None\<rparr> shop
             = Inr 1"
    by code_simp
  show ?thesis
    using a b c
      add_product_materials_skips_existing_line [of shop "''A''"
        "\<lparr>mi_material_id = ''M'', mi_used_quantity = 9, mi_unit_cost = Some 1\<rparr>"]
      add_product_materials_skips_existing_line [of shop "''C''"
        "\<lparr>mi_material_id = ''N'', mi_used_quantity = 2, mi_unit_cost = None\<rparr>" 1
        "\<lparr>mi_material_id = ''N'', mi_used_quantity = 5, mi_unit_cost = Some 9\<rparr>"]
    by (simp add: Let_def)
qed

text \<open>
  C10. A batch is not atomic. When the materials before some material have gone through
  and that material has no line yet, comes without unit cost and is not in the table of
  materials, the call raises and the database that is left is the one reached after the
  earlier materials: each of them has its line, nothing is undone. The materials after
  the failing one are not looked at.
\<close>

theorem add_product_materials_not_atomic:
  assumes earlier:
      "add_product_materials \<lparr>pmd_product_id = p, pmd_materials = earlier\<rparr> d = (Inr (), d1)"
    and absent: "bom_lines d1 p (mi_material_id bad) = []"
    and no_cost: "mi_unit_cost bad = None"
    and unknown: "filter (\<lambda>m. m_id m = mi_material_id bad) (materials d) = []"
  shows "add_product_materials \<lparr>pmd_product_id = p, pmd_materials = earlier @ bad # later\<rparr> d =
           (Inl (ValueError (''Material with ID '' @ quoted (mi_material_id bad) @
                             '' not found.'')), d1)
         \<and> (\<forall>x \<in> set earlier. bom_lines d1 p (mi_material_id x) \<noteq> [])"
proof -
  from earlier have run: "add_product_materials_loop p earlier d = (Inr (), d1)"
    by (simp add: add_product_materials_def)
  from add_loop_grows [OF run] have "materials d1 = materials d" by auto
  with unknown no_cost have "unit_cost_of bad d1 =
      Inl (ValueError (''Material with ID '' @ quoted (mi_material_id bad) @ '' not found.''))"
    by (simp add: unit_cost_of_def fetchone_def)
  with absent have "add_product_materials_loop p (bad # later) d1 =
      (Inl (ValueError (''Material with ID '' @ quoted (mi_material_id bad) @ '' not found.'')), d1)"
    by (simp add: add_loop_step)
  with run have "add_product_materials_loop p (earlier @ bad # later) d =
      (Inl (ValueError (''Material with ID '' @ quoted (mi_material_id bad) @ '' not found.'')), d1)"
    by (simp add: add_loop_append)
  moreover have "\<forall>x \<in> set earlier. bom_lines d1 p (mi_material_id x) \<noteq> []"
    using add_loop_lines [OF run] by blast
  ultimately show ?thesis by (simp add: add_product_materials_def)
qed

theorem add_product_materials_not_atomic_witness:
  "add_product_materials \<lparr>pmd_product_id = ''C'', pmd_materials =
       [\<lparr>mi_material_id = ''M'', mi_used_quantity = 2, mi_unit_cost = None\<rparr>,
        \<lparr>mi_material_id = ''Z'', mi_used_quantity = 1, mi_unit_cost = None\<rparr>]\<rparr> shop =
     (Inl (ValueError (''Material with ID '' @ quoted ''Z'' @ '' not found.'')),
      shop\<lparr>product_materials := product_materials shop @
        [\<lparr>pm_product_id = ''C'', pm_material_id = ''M'', pm_used_quantity = 2,
          pm_unit_cost = 7\<rparr>]\<rparr>)
   \<and> shop\<lparr>product_materials := product_materials shop @
        [\<lparr>pm_product_id = ''C'', pm_material_id = ''M'', pm_used_quantity = 2,
          pm_unit_cost = 7\<rparr>]\<rparr> \<noteq> shop"
proof -
  let ?d1 = "shop\<lparr>product_materials := product_materials shop @
        [\<lparr>pm_product_id = ''C'', pm_material_id = ''M'', pm_used_quantity = 2,
          pm_unit_cost = 7\<rparr>]\<rparr>"
  have a: "add_product_materials \<lparr>pmd_product_id = ''C'', pmd_materials =
       [\<lparr>mi_material_id = ''M'', mi_used_quantity = 2, mi_unit_cost = None\<rparr>]\<rparr> shop =
       (Inr (), ?d1)"
    by code_simp
  have b: "bom_lines ?d1 ''C'' ''Z'' = []" by code_simp
  have c: "filter (\<lambda>m. m_id m = ''Z'') (materials shop) = []" by code_simp
  have d: "?d1 \<noteq> shop" by code_simp
  show ?thesis
    using d add_product_materials_not_atomic [OF a, of
        "\<lparr>mi_material_id = ''Z'', mi_used_quantity = 1, mi_unit_cost = None\<rparr>" "[]"] b c
    by simp
qed

section \<open>The order status registry: the contract\<close>

text \<open>
  C9. \<open>update_order_status\<close> succeeds exactly when the status code names a row of
  \<open>order_statuses\<close> and the id names a row of \<open>order_transactions\<close>; the status that
  the order has does not enter the condition, so any status may follow any other. When
  the code does not resolve, or the code resolves and the id does not, the reply is the
  error and the database is the same. On success all the tables but
  \<open>order_transactions\<close> are the same, the orders are the same in number and order, each
  differs from what it was in \<open>status_id\<close> at most, the orders with another id are the
  same, and the orders with the id point to the status that the code names.
\<close>

theorem update_order_status_contract:
  "(fst (update_order_status tid code d) = success_reply \<longleftrightarrow>
      (\<exists>s \<in> set (order_statuses d). os_status_code s = code) \<and>
      (\<exists>t \<in> set (order_transactions d). ot_id t = tid)) \<and>
   ((\<forall>s \<in> set (order_statuses d). os_status_code s \<noteq> code) \<longrightarrow>
      update_order_status tid code d = (error_reply ''Status code not found.'', d)) \<and>
   ((\<exists>s \<in> set (order_statuses d). os_status_code s = code) \<and>
    (\<forall>t \<in> set (order_transactions d). ot_id t \<noteq> tid) \<longrightarrow>
      update_order_status tid code d = (error_reply ''Transaction ID not found.'', d)) \<and>
   (fst (update_order_status tid code d) = success_reply \<longrightarrow>
      (let d' = snd (update_order_status tid code d)
       in d' = d\<lparr>order_transactions := order_transactions d'\<rparr> \<and>
          length (order_transactions d') = length (order_transactions d) \<and>
          (\<forall>i < length (order_transactions d).
             (let t = order_transactions d ! i; t' = order_transactions d' ! i
              in t' = t\<lparr>ot_status_id := ot_status_id t'\<rparr> \<and>
                 (ot_id t \<noteq> tid \<longrightarrow> t' = t) \<and>
                 (ot_id t = tid \<longrightarrow>
                    (\<exists>s. fetchone (filter (\<lambda>s. os_status_code s = code) (order_statuses d)) = Some s
                         \<and> ot_status_id t' = os_id s))))))"
proof (cases "fetchone (filter (\<lambda>s. os_status_code s = code) (order_statuses d))")
  case None
  then have "\<forall>s \<in> set (order_statuses d). os_status_code s \<noteq> code"
    by (simp add: fetchone_filter_None)
  with None show ?thesis by (simp add: update_order_status_def)
next
  case (Some s)
  note s = this
  from fetchone_filter_Some [OF s] have ex: "\<exists>s \<in> set (order_statuses d). os_status_code s = code"
    by blast
  show ?thesis
  proof (cases "fetchone (filter (\<lambda>t. ot_id t = tid) (order_transactions d))")
    case None
    then have "\<forall>t \<in> set (order_transactions d). ot_id t \<noteq> tid"
      by (simp add: fetchone_filter_None)
    with None s ex show ?thesis by (auto simp: update_order_status_def)
  next
    case (Some t)
    from fetchone_filter_Some [OF Some] have ext: "\<exists>t \<in> set (order_transactions d). ot_id t = tid"
      by blast
    from s Some ex ext show ?thesis
      by (auto simp: update_order_status_def Let_def)
  qed
qed

theorem update_order_status_contract_witness:
  "fst (update_order_status ''O1'' ''PENDING'' shop) = success_reply \<and>
   ot_status_id (order_transactions shop ! 0) = ''OS2'' \<and>
   ot_status_id (order_transactions (snd (update_order_status ''O1'' ''PENDING'' shop)) ! 0) = ''OS1'' \<and>
   update_order_status ''O1'' ''SHIPPED'' shop = (error_reply ''Status code not found.'', shop) \<and>
   update_order_status ''O7'' ''DONE'' shop = (error_reply ''Transaction ID not found.'', shop)"
proof -
  have a: "\<exists>s \<in> set (order_statuses shop). os_status_code s = ''PENDING''" by code_simp
  have b: "\<exists>t \<in> set (order_transactions shop). ot_id t = ''O1''" by code_simp
  have c: "0 < length (order_transactions shop)" by code_simp
  have d: "ot_id (order_transactions shop ! 0) = ''O1''" by code_simp
  have e: "fetchone (filter (\<lambda>s. os_status_code s = ''PENDING'') (order_statuses shop)) =
             Some \<lparr>os_id = ''OS1'', os_status_code = ''PENDING''\<rparr>" by code_simp
  have f: "\<forall>s \<in> set (order_statuses shop). os_status_code s \<noteq> ''SHIPPED''" by code_simp
  have g: "\<exists>s \<in> set (order_statuses shop). os_status_code s = ''DONE''" by code_simp
  have h: "\<forall>t \<in> set (order_transactions shop). ot_id t \<noteq> ''O7''" by code_simp
  have i: "ot_status_id (order_transactions shop ! 0) = ''OS2''" by code_simp
  from update_order_status_contract [of "''O1''" "''PENDING''" shop] a b
  have ok: "fst (update_order_status ''O1'' ''PENDING'' shop) = success_reply" by blast
  with update_order_status_contract [of "''O1''" "''PENDING''" shop] c d e
  have "ot_status_id (order_transactions (snd (update_order_status ''O1'' ''PENDING'' shop)) ! 0) = ''OS1''"
    by (auto simp: Let_def)
  with ok i f g h update_order_status_contract [of "''O1''" "''SHIPPED''" shop]
    update_order_status_contract [of "''O7''" "''DONE''" shop]
  show ?thesis by blast
qed

section \<open>Stock receiving: the actor\<close>

lemma stock_items_loop_eq:
  "stock_items_loop tid its d =
     d\<lparr>stock_transaction_items := stock_transaction_items d @
         map (\<lambda>it. \<lparr>sti_stock_transaction_id = tid, sti_material_id = si_material_id it,
                     sti_quantity = si_quantity it\<rparr>) its,
       materials :=
         map (\<lambda>m. m\<lparr>m_current_stock := m_current_stock m +
                      sum_list (map si_quantity (filter (\<lambda>it. si_material_id it = m_id m) its))\<rparr>)
             (materials d)\<rparr>"
proof (induction its arbitrary: d)
  case Nil
  show ?case by (simp add: map_idI)
next
  case (Cons it its)
  have "map (\<lambda>m. m\<lparr>m_current_stock := m_current_stock m +
                      sum_list (map si_quantity (filter (\<lambda>it. si_material_id it = m_id m) its))\<rparr>)
          (map (\<lambda>m. if m_id m = si_material_id it
                     then m\<lparr>m_current_stock := m_current_stock m + si_quantity it\<rparr> else m) ms) =
        map (\<lambda>m. m\<lparr>m_current_stock := m_current_stock m +
                      sum_list (map si_quantity (filter (\<lambda>i. si_material_id i = m_id m) (it # its)))\<rparr>)
          ms" for ms
    by (induction ms) auto
  then show ?case by (simp add: Cons.IH)
qed

lemma resolve_supplier_error: "resolve_supplier data d = Inl e \<Longrightarrow> \<exists>msg. e = ValueError msg"
  by (auto simp: resolve_supplier_def create_supplier_def Let_def split: if_splits option.splits)

lemma resolve_stock_type_error: "resolve_stock_type data d = Inl e \<Longrightarrow> \<exists>msg. e = ValueError msg"
  by (auto simp: resolve_stock_type_def split: if_splits option.splits)

lemma resolve_supplier_frame:
  assumes "resolve_supplier data d = Inr (supplier_id, d1)"
  shows "\<exists>rows. d1 = d\<lparr>suppliers := rows\<rparr>"
proof (cases "falsy (sd_supplier_id data)")
  case True
  with assms show ?thesis
    by (auto simp: resolve_supplier_def create_supplier_def Let_def
             split: if_splits option.splits)
next
  case False
  with assms have "d1 = d\<lparr>suppliers := suppliers d\<rparr>"
    by (simp add: resolve_supplier_def)
  then show ?thesis ..
qed

text \<open>
  C7, as the code has it. A receipt that names neither an administrator nor an employee
  is refused with a \<open>ValueError\<close> and leaves the database as it was, also when a
  supplier was created for it before the check; when the supplier and the stock type
  resolve, the error is the one of the actor check. A receipt that names at least one of
  the two passes the check: once the supplier and the stock type resolve, the call returns
  the id of the stock transaction, whose row holds both \<open>admin_id\<close> and
  \<open>employee_id\<close> as given, so naming both is accepted.
\<close>

theorem stock_materials_actor_check:
  "(falsy (sd_admin_id data) \<and> falsy (sd_employee_id data) \<longrightarrow>
      snd (stock_materials data d) = d \<and>
      (\<exists>msg. fst (stock_materials data d) = Inl (ValueError msg)) \<and>
      (\<forall>supplier_id d1 stock_type_id.
         resolve_supplier data d = Inr (supplier_id, d1) \<and>
         resolve_stock_type data d1 = Inr stock_type_id \<longrightarrow>
         fst (stock_materials data d) =
           Inl (ValueError ''Either admin_id or employee_id must be provided.''))) \<and>
   (\<not> (falsy (sd_admin_id data) \<and> falsy (sd_employee_id data)) \<longrightarrow>
      (\<forall>supplier_id d1 stock_type_id.
         resolve_supplier data d = Inr (supplier_id, d1) \<and>
         resolve_stock_type data d1 = Inr stock_type_id \<longrightarrow>
         (\<exists>tid. fst (stock_materials data d) = Inr tid \<and>
           stock_transactions (snd (stock_materials data d)) =
             stock_transactions d @
             [\<lparr>st_id = tid, st_stock_type_id = stock_type_id, st_supplier_id = supplier_id,
               st_admin_id = sd_admin_id data, st_employee_id = sd_employee_id data\<rparr>])))"
  by (cases "resolve_supplier data d")
     (auto simp: stock_materials_def stock_materials_try_def Let_def stock_items_loop_eq
           dest: resolve_supplier_error resolve_stock_type_error
           dest!: resolve_supplier_frame split: sum.splits prod.splits)

theorem stock_materials_actor_check_witness:
  "stock_materials receipt_by_nobody shop =
     (Inl (ValueError ''Either admin_id or employee_id must be provided.''), shop) \<and>
   fst (stock_materials negative_receipt shop) = Inr ''###''"
proof -
  have a: "falsy (sd_admin_id receipt_by_nobody) \<and> falsy (sd_employee_id receipt_by_nobody)"
    by code_simp
  have b: "resolve_supplier receipt_by_nobody shop =
      Inr (''###'', shop\<lparr>suppliers := suppliers shop @
        [\<lparr>s_id = ''###'', s_firstname = ''Al'', s_lastname = ''Go'', s_contact_name = ''Ace Metals'',
          s_contact_number = ''3'', s_email = ''ace@x'', s_address = ''Iloilo''\<rparr>]\<rparr>)"
    by code_simp
  have c: "resolve_stock_type receipt_by_nobody (shop\<lparr>suppliers := suppliers shop @
        [\<lparr>s_id = ''###'', s_firstname = ''Al'', s_lastname = ''Go'', s_contact_name = ''Ace Metals'',
          s_contact_number = ''3'', s_email = ''ace@x'', s_address = ''Iloilo''\<rparr>]\<rparr>) = Inr ''ST1''"
    by code_simp
  have d: "\<not> (falsy (sd_admin_id negative_receipt) \<and> falsy (sd_employee_id negative_receipt))"
    by code_simp
  have e: "resolve_supplier negative_receipt shop = Inr (''S1'', shop)" by code_simp
  have f: "resolve_stock_type negative_receipt shop = Inr ''ST1''" by code_simp
  have g: "st_id (last (stock_transactions (snd (stock_materials negative_receipt shop)))) = ''###''"
    by code_simp
  from stock_materials_actor_check [of receipt_by_nobody shop] a b c
  have 1: "stock_materials receipt_by_nobody shop =
     (Inl (ValueError ''Either admin_id or employee_id must be provided.''), shop)"
    by (metis prod.collapse)
  from stock_materials_actor_check [of negative_receipt shop] d e f
  obtain tid where "fst (stock_materials negative_receipt shop) = Inr tid"
     "stock_transactions (snd (stock_materials negative_receipt shop)) =
             stock_transactions shop @
             [\<lparr>st_id = tid, st_stock_type_id = ''ST1'', st_supplier_id = ''S1'',
               st_admin_id = sd_admin_id negative_receipt, st_employee_id = sd_employee_id negative_receipt\<rparr>]"
    by blast
  with g have "fst (stock_materials negative_receipt shop) = Inr ''###''" by simp
  with 1 show ?thesis by simp
qed

text \<open>
  C7 as stated fails: the receipt that names both an administrator and an employee is
  not refused; it returns the id of a new stock transaction that carries both, and the
  stock of steel goes from 4 to 5.
\<close>

theorem stock_materials_both_actors_counterexample:
  "sd_admin_id receipt_by_both = Some ''AD1'' \<and> sd_employee_id receipt_by_both = Some ''E1'' \<and>
   fst (stock_materials receipt_by_both shop) = Inr ''###'' \<and>
   stock_transactions (snd (stock_materials receipt_by_both shop)) =
     stock_transactions shop @
     [\<lparr>st_id = ''###'', st_stock_type_id = ''ST1'', st_supplier_id = ''S1'',
       st_admin_id = Some ''AD1'', st_employee_id = Some ''E1''\<rparr>] \<and>
   m_current_stock (materials (snd (stock_materials receipt_by_both shop)) ! 0) = 5"
  by code_simp

section \<open>Quantities are not checked\<close>







section \<open>Products without bill of materials\<close>

lemma precheck_rows_no_bom:
  "\<forall>pm \<in> set (product_materials d). pm_product_id pm \<noteq> product_id \<Longrightarrow>
   precheck_rows product_id d = []"
  by (simp add: precheck_rows_def filter_empty_conv)

lemma require_items_no_bom:
  "\<forall>item \<in> set its. \<forall>pm \<in> set (product_materials d). pm_product_id pm \<noteq> it_product_id item \<Longrightarrow>
   require_items its d material_requirements = material_requirements"
  by (induction its arbitrary: material_requirements) (simp_all add: precheck_rows_no_bom)

lemma process_order_items_no_bom:
  assumes "\<forall>item \<in> set its.
             (\<forall>pm \<in> set (product_materials d). pm_product_id pm \<noteq> it_product_id item) \<and>
             (\<exists>p \<in> set (products d). p_id p = it_product_id item)"
  shows "process_order_items tid admin_id its tot d =
           Inr (tot + order_total d its,
                d\<lparr>order_items := order_items d @ map (order_line d tid) its\<rparr>)"
  using assms
proof (induction its arbitrary: tot d)
  case Nil
  show ?case by (simp add: order_total_def)
next
  case (Cons item its)
  from Cons.prems have nobom:
    "filter (\<lambda>pm. pm_product_id pm = it_product_id item) (product_materials d) = []"
    by (simp add: filter_empty_conv)
  from Cons.prems obtain p where
    p: "fetchone (filter (\<lambda>p. p_id p = it_product_id item) (products d)) = Some p"
    by (cases "fetchone (filter (\<lambda>p. p_id p = it_product_id item) (products d))")
       (auto simp: fetchone_filter_None)
  then have price: "unit_price_of d (it_product_id item) = p_unit_price p"
    by (simp add: unit_price_of_def)
  define d1 where "d1 = d\<lparr>order_items := order_items d @ [order_line d tid item]\<rparr>"
  have step: "process_order_items tid admin_id (item # its) tot d =
              process_order_items tid admin_id its (tot + it_quantity item * p_unit_price p) d1"
    by (simp add: Let_def p nobom d1_def order_line_def price)
  have same: "unit_price_of d1 = unit_price_of d" "order_line d1 = order_line d"
    "order_total d1 = order_total d"
    by (rule ext, simp add: unit_price_of_def order_line_def order_total_def d1_def fun_eq_iff)+
  have "\<forall>item \<in> set its.
             (\<forall>pm \<in> set (product_materials d1). pm_product_id pm \<noteq> it_product_id item) \<and>
             (\<exists>p \<in> set (products d1). p_id p = it_product_id item)"
    using Cons.prems by (simp add: d1_def)
  from Cons.IH [OF this, of "tot + it_quantity item * p_unit_price p"]
  have "process_order_items tid admin_id its (tot + it_quantity item * p_unit_price p) d1 =
          Inr (tot + it_quantity item * p_unit_price p + order_total d its,
               d1\<lparr>order_items := order_items d1 @ map (order_line d tid) its\<rparr>)"
    by (simp add: same)
  with step show ?case
    by (simp add: d1_def order_total_def price)
qed

text \<open>
  C6, as the code has it. For a product with no line in the bill of materials,
  \<open>get_product_materials_by_product_id\<close> returns the empty list; it raises nothing.
  An order of a known customer whose lines are all for such products, each of them a row
  of \<open>products\<close>, is admitted. The call returns the id of the order, and the database
  it leaves is the one it started from with the order header added (the customer, the
  status and the administrator of the call, the total of the order) and one order line
  added for each line of the order, in order, with the id of the order and the unit price
  of the product: no material, stock transaction or ledger row changes.
\<close>

theorem order_without_bom_is_admitted:
  "((\<forall>pm \<in> set (product_materials d). pm_product_id pm \<noteq> product_id) \<longrightarrow>
      get_product_materials_by_product_id product_id d = []) \<and>
   (\<not> falsy (od_customer_id order) \<and>
    (\<forall>item \<in> set (od_items order).
       (\<forall>pm \<in> set (product_materials d). pm_product_id pm \<noteq> it_product_id item) \<and>
       (\<exists>p \<in> set (products d). p_id p = it_product_id item)) \<longrightarrow>
      (let transaction_id = new_id (map ot_id (order_transactions d))
       in create_order_transaction order d =
            (Inr transaction_id,
             d\<lparr>order_transactions := order_transactions d @
                  [\<lparr>ot_id = transaction_id, ot_customer_id = present (od_customer_id order),
                    ot_status_id = od_status_id order, ot_admin_id = od_admin_id order,
                    ot_total_amount = order_total d (od_items order)\<rparr>],
               order_items := order_items d @
                  map (order_line d transaction_id) (od_items order)\<rparr>)))"
proof -
  have 1: "get_product_materials_by_product_id product_id d = []"
    if "\<forall>pm \<in> set (product_materials d). pm_product_id pm \<noteq> product_id"
    using that by (simp add: get_product_materials_by_product_id_def filter_empty_conv)
  have 2: "create_order_transaction order d =
            (Inr (new_id (map ot_id (order_transactions d))),
             d\<lparr>order_transactions := order_transactions d @
                  [\<lparr>ot_id = new_id (map ot_id (order_transactions d)),
                    ot_customer_id = present (od_customer_id order),
                    ot_status_id = od_status_id order, ot_admin_id = od_admin_id order,
                    ot_total_amount = order_total d (od_items order)\<rparr>],
               order_items := order_items d @
                  map (order_line d (new_id (map ot_id (order_transactions d)))) (od_items order)\<rparr>)"
    if cust: "\<not> falsy (od_customer_id order)"
      and nobom: "\<forall>item \<in> set (od_items order).
       (\<forall>pm \<in> set (product_materials d). pm_product_id pm \<noteq> it_product_id item) \<and>
       (\<exists>p \<in> set (products d). p_id p = it_product_id item)"
  proof -
    define tid where "tid = new_id (map ot_id (order_transactions d))"
    define header where "header = \<lparr>ot_id = tid, ot_customer_id = present (od_customer_id order),
                           ot_status_id = od_status_id order, ot_admin_id = od_admin_id order,
                           ot_total_amount = 0\<rparr>"
    define d1 where "d1 = d\<lparr>order_transactions := order_transactions d @ [header]\<rparr>"
    from nobom have req: "require_items (od_items order) d [] = []"
      by (simp add: require_items_no_bom)
    have same: "order_line d1 = order_line d" "order_total d1 = order_total d"
      by (rule ext, simp add: unit_price_of_def order_line_def order_total_def d1_def fun_eq_iff)+
    from nobom have "\<forall>item \<in> set (od_items order).
       (\<forall>pm \<in> set (product_materials d1). pm_product_id pm \<noteq> it_product_id item) \<and>
       (\<exists>p \<in> set (products d1). p_id p = it_product_id item)"
      by (simp add: d1_def)
    from process_order_items_no_bom [OF this, of tid "od_admin_id order" 0]
    have run: "process_order_items tid (od_admin_id order) (od_items order) 0 d1 =
              Inr (order_total d (od_items order),
                   d1\<lparr>order_items := order_items d1 @ map (order_line d tid) (od_items order)\<rparr>)"
      by (simp add: same)
    have "tid \<notin> set (map ot_id (order_transactions d))"
      unfolding tid_def by (rule new_id_fresh)
    then have old: "map (\<lambda>t. if ot_id t = tid then t\<lparr>ot_total_amount := x\<rparr> else t)
                      (order_transactions d) = order_transactions d" for x
      by (intro map_idI) auto
    have "create_order_try order (present (od_customer_id order)) d =
            Inr (tid, d\<lparr>order_transactions := order_transactions d @
                          [header\<lparr>ot_total_amount := order_total d (od_items order)\<rparr>],
                       order_items := order_items d @ map (order_line d tid) (od_items order)\<rparr>)"
      using req run
      by (simp add: create_order_try_def lacking_materials_def Let_def tid_def [symmetric]
                    header_def [symmetric] d1_def [symmetric])
         (simp add: d1_def old header_def)
    with cust show ?thesis
      by (simp add: create_order_transaction_def resolve_customer_def tid_def header_def)
  qed
  from 1 2 show ?thesis by (simp add: Let_def)
qed

theorem order_without_bom_is_admitted_witness:
  "get_product_materials_by_product_id ''C'' shop = [] \<and>
   create_order_transaction bare_order shop =
     (Inr ''###'',
      shop\<lparr>order_transactions := order_transactions shop @
              [\<lparr>ot_id = ''###'', ot_customer_id = ''C1'', ot_status_id = ''OS1'',
                ot_admin_id = Some ''AD1'', ot_total_amount = 15\<rparr>],
            order_items := order_items shop @
              [\<lparr>oi_order_id = ''###'', oi_product_id = ''C'', oi_quantity = 3,
                oi_unit_price = 5\<rparr>]\<rparr>)"
proof -
  have a: "\<forall>pm \<in> set (product_materials shop). pm_product_id pm \<noteq> ''C''" by code_simp
  have b: "\<not> falsy (od_customer_id bare_order)" by code_simp
  have c: "\<forall>item \<in> set (od_items bare_order).
       (\<forall>pm \<in> set (product_materials shop). pm_product_id pm \<noteq> it_product_id item) \<and>
       (\<exists>p \<in> set (products shop). p_id p = it_product_id item)" by code_simp
  have d: "new_id (map ot_id (order_transactions shop)) = ''###''" by code_simp
  have e: "present (od_customer_id bare_order) = ''C1'' \<and> od_status_id bare_order = ''OS1'' \<and>
           od_admin_id bare_order = Some ''AD1'' \<and> order_total shop (od_items bare_order) = 15 \<and>
           map (order_line shop ''###'') (od_items bare_order) =
             [\<lparr>oi_order_id = ''###'', oi_product_id = ''C'', oi_quantity = 3, oi_unit_price = 5\<rparr>]"
    by code_simp
  from order_without_bom_is_admitted [of shop "''C''" bare_order] a b c
  show ?thesis by (simp add: Let_def d e)
qed

text \<open>
  C6 as stated fails: product C has no bill of materials, its requirements are the empty
  list and not an error, and the order for three units of C is admitted with its header
  and its order line written and nothing consumed.
\<close>

theorem order_without_bom_counterexample:
  "bom_lines shop ''C'' ''M'' = [] \<and> bom_lines shop ''C'' ''N'' = [] \<and>
   get_product_materials_by_product_id ''C'' shop = [] \<and>
   od_items bare_order = [\<lparr>it_product_id = ''C'', it_quantity = 3\<rparr>] \<and>
   fst (create_order_transaction bare_order shop) = Inr ''###'' \<and>
   order_transactions (snd (create_order_transaction bare_order shop)) =
     order_transactions shop @
     [\<lparr>ot_id = ''###'', ot_customer_id = ''C1'', ot_status_id = ''OS1'',
       ot_admin_id = Some ''AD1'', ot_total_amount = 15\<rparr>] \<and>
   order_items (snd (create_order_transaction bare_order shop)) =
     order_items shop @
     [\<lparr>oi_order_id = ''###'', oi_product_id = ''C'', oi_quantity = 3, oi_unit_price = 5\<rparr>] \<and>
   stock_transactions (snd (create_order_transaction bare_order shop)) =
     stock_transactions shop \<and>
   stock_transaction_items (snd (create_order_transaction bare_order shop)) =
     stock_transaction_items shop \<and>
   materials (snd (create_order_transaction bare_order shop)) = materials shop"
  by code_simp

section \<open>The admission check\<close>

text \<open>
  The check reports every entry of the dictionary whose \<open>needed\<close> exceeds its
  \<open>available\<close>, in the order of the dictionary.
\<close>

lemma lacking_materials_all:
  "lacking_materials material_requirements =
     map (\<lambda>(k, v). lacking_line v) (filter (\<lambda>(k, v). needed v > available v) material_requirements)"
  by (induction material_requirements) (auto simp: lacking_materials_def)

text \<open>
  One row of the pre-check leaves for its material an accumulator that holds the
  requirement of that row alone, whatever the dictionary held before.
\<close>

lemma map_of_dict_set: "map_of (dict_set kvs k v) k = Some v"
  by (induction kvs) auto

lemma map_of_dict_modify:
  "map_of kvs k = Some v \<Longrightarrow> map_of (dict_modify kvs k f) k = Some (f v)"
  by (induction kvs) (auto split: if_splits)

lemma require_rows_resets:
  "map_of (require_rows quantity [(material_id, used_qty, current_stock, name, u)]
             material_requirements) material_id =
     Some \<lparr>needed = used_qty * quantity, available = current_stock, item_name = name, unit = u\<rparr>"
  by (simp add: Let_def map_of_dict_modify [OF map_of_dict_set])

text \<open>
  C1, on the example of the specification: A needs 2 kg of steel, B needs 3 kg, the stock
  is 4 kg and the order is for one A and one B. The summed demand is 5, but the
  accumulator that the loop leaves for steel holds 3, the requirement of the last line
  alone, because each row assigns a new accumulator before it adds. The order is admitted
  and the stock of steel ends at -1.
\<close>

theorem shared_material_demand_not_summed:
  "summed_demand (od_items shared_steel_order) shop ''M'' = 5 \<and>
   map m_current_stock (materials shop) = [4, 0] \<and>
   require_items (od_items shared_steel_order) shop [] =
     [(''M'', \<lparr>needed = 3, available = 4, item_name = ''Steel'', unit = ''kg''\<rparr>)] \<and>
   fst (create_order_transaction shared_steel_order shop) = Inr ''###'' \<and>
   map m_current_stock (materials (snd (create_order_transaction shared_steel_order shop))) =
     [- 1, 0]"
  by code_simp

text \<open>
  C4, on an order for one A and one D with 4 kg of steel and no glue in stock. The summed
  demand exceeds the stock for steel (5 against 4) and for glue (1 against 0), so both
  are deficits of the order. The accumulator that the loop leaves for steel holds 3, the
  requirement of the last line alone, and the one failure that the call raises names
  glue only; the database is left as it was.
\<close>

theorem deficit_report_misses_shared_material:
  "summed_demand (od_items steel_and_glue_order) shop ''M'' = 5 \<and>
   summed_demand (od_items steel_and_glue_order) shop ''N'' = 1 \<and>
   map m_current_stock (materials shop) = [4, 0] \<and>
   require_items (od_items steel_and_glue_order) shop [] =
     [(''M'', \<lparr>needed = 3, available = 4, item_name = ''Steel'', unit = ''kg''\<rparr>),
      (''N'', \<lparr>needed = 1, available = 0, item_name = ''Glue'', unit = ''pc''\<rparr>)] \<and>
   create_order_transaction steel_and_glue_order shop =
     (Inl (HTTPException 400
        (''Insufficient material stock for the following materials:'' @ [CHR 0x0A, CHR 0x0A] @
         [CHR 0xE2, CHR 0x80, CHR 0xA2] @ '' Glue (Need: 1 pc, Available: 0 pc)'')), shop)"
  by code_simp

section \<open>What a failed order leaves\<close>

text \<open>
  When \<open>create_order_transaction\<close> raises, the database is the one at \<open>BEGIN\<close>: the
  database of the call when the customer was given by id or nothing was given, and the
  database with the new customer when the customer was given inline.
\<close>

lemma create_order_transaction_rollback:
  "fst (create_order_transaction order d) = Inl e \<Longrightarrow>
   (\<not> falsy (od_customer_id order) \<or> od_customer order = None \<longrightarrow>
      snd (create_order_transaction order d) = d) \<and>
   (\<forall>customer_data. falsy (od_customer_id order) \<and> od_customer order = Some customer_data \<longrightarrow>
      snd (create_order_transaction order d) = snd (create_customer customer_data d))"
  by (auto simp: create_order_transaction_def resolve_customer_def split: sum.splits prod.splits option.splits)

text \<open>
  C2, on an order from an inline customer for one D, which needs glue that is not in
  stock: the call raises the HTTP 400 error, and the customer row inserted by step 0 is
  in the database afterwards.
\<close>

theorem failed_order_keeps_new_customer:
  "fst (create_order_transaction walk_in_order shop) =
     Inl (HTTPException 400 (formatted_message [''Glue (Need: 1 pc, Available: 0 pc)''])) \<and>
   snd (create_order_transaction walk_in_order shop) =
     shop\<lparr>customers := customers shop @
       [\<lparr>c_id = ''###'', c_firstname = ''Lea'', c_lastname = ''Tan'', c_contact_number = ''4'',
         c_email = ''lea@x'', c_address = ''Bohol''\<rparr>]\<rparr> \<and>
   snd (create_order_transaction walk_in_order shop) \<noteq> shop"
  by code_simp

section \<open>The ledger and the counter\<close>

lemma fetchone_append_found:
  "\<exists>x \<in> set xs. P x \<Longrightarrow> fetchone (filter P (xs @ ys)) = fetchone (filter P xs)"
  by (induction xs) (auto simp: fetchone_def)

lemma fetchone_append_fresh:
  "\<forall>x \<in> set xs. \<not> P x \<Longrightarrow> P y \<Longrightarrow> fetchone (filter P (xs @ [y])) = Some y"
  by (induction xs) (auto simp: fetchone_def)

lemma signed_quantity_append:
  assumes "\<exists>t \<in> set (stock_transactions d). st_id t = sti_stock_transaction_id it"
    and "stock_transactions d' = stock_transactions d @ new"
  shows "signed_quantity d' it = signed_quantity d it"
  using assms by (simp add: signed_quantity_def fetchone_append_found del: filter_append)

lemma ledger_step:
  assumes inv: "ledger_invariant d" and fk: "items_have_transactions d"
    and txns: "stock_transactions d' = stock_transactions d @ new"
    and its: "stock_transaction_items d' = stock_transaction_items d @ [it]"
    and ref: "fetchone (filter (\<lambda>t. st_id t = sti_stock_transaction_id it) (stock_transactions d'))
                = Some t"
    and mats: "materials d' =
                 map (\<lambda>m. if m_id m = sti_material_id it
                           then m\<lparr>m_current_stock := m_current_stock m +
                                  (if is_consumption t then - sti_quantity it else sti_quantity it)\<rparr>
                           else m) (materials d)"
  shows "ledger_invariant d' \<and> items_have_transactions d'"
proof -
  have old: "map (signed_quantity d') (filter P (stock_transaction_items d)) =
             map (signed_quantity d) (filter P (stock_transaction_items d))" for P
    using fk txns by (auto simp: items_have_transactions_def intro!: signed_quantity_append)
  have new: "signed_quantity d' it = (if is_consumption t then - sti_quantity it else sti_quantity it)"
    using ref by (simp add: signed_quantity_def)
  have sum: "ledger_sum d' x = ledger_sum d x +
               (if x = sti_material_id it
                then (if is_consumption t then - sti_quantity it else sti_quantity it) else 0)" for x
    by (simp add: ledger_sum_def its old new)
  have "ledger_invariant d'"
    using inv by (auto simp: ledger_invariant_def mats sum)
  moreover have "items_have_transactions d'"
    using fk fetchone_filter_Some [OF ref]
    by (auto simp: items_have_transactions_def its txns)
  ultimately show ?thesis ..
qed

lemma signed_quantity_frame [simp]:
  "signed_quantity (d\<lparr>order_items := oi\<rparr>) = signed_quantity d"
  "signed_quantity (d\<lparr>order_transactions := ot\<rparr>) = signed_quantity d"
  "signed_quantity (d\<lparr>customers := cs\<rparr>) = signed_quantity d"
  "signed_quantity (d\<lparr>suppliers := ss\<rparr>) = signed_quantity d"
  by (rule ext, simp add: signed_quantity_def)+

lemma ledger_invariant_frame [simp]:
  "ledger_invariant (d\<lparr>order_items := oi\<rparr>) = ledger_invariant d"
  "ledger_invariant (d\<lparr>order_transactions := ot\<rparr>) = ledger_invariant d"
  "ledger_invariant (d\<lparr>customers := cs\<rparr>) = ledger_invariant d"
  "ledger_invariant (d\<lparr>suppliers := ss\<rparr>) = ledger_invariant d"
  by (simp_all add: ledger_invariant_def ledger_sum_def)

lemma items_have_transactions_frame [simp]:
  "items_have_transactions (d\<lparr>order_items := oi\<rparr>) = items_have_transactions d"
  "items_have_transactions (d\<lparr>order_transactions := ot\<rparr>) = items_have_transactions d"
  "items_have_transactions (d\<lparr>customers := cs\<rparr>) = items_have_transactions d"
  "items_have_transactions (d\<lparr>suppliers := ss\<rparr>) = items_have_transactions d"
  by (simp_all add: items_have_transactions_def)

lemma ledger_new_transaction:
  assumes inv: "ledger_invariant d" and fk: "items_have_transactions d"
    and txns: "stock_transactions d' = stock_transactions d @ new"
    and its: "stock_transaction_items d' = stock_transaction_items d"
    and mats: "materials d' = materials d"
  shows "ledger_invariant d' \<and> items_have_transactions d'"
proof -
  have old: "map (signed_quantity d') (filter P (stock_transaction_items d)) =
        map (signed_quantity d) (filter P (stock_transaction_items d))" for P
    using fk txns by (auto simp: items_have_transactions_def intro!: signed_quantity_append)
  have "ledger_sum d' x = ledger_sum d x" for x
    by (simp add: ledger_sum_def its old)
  with inv have "ledger_invariant d'" by (simp add: ledger_invariant_def mats)
  moreover from fk have "items_have_transactions d'"
    by (auto simp: items_have_transactions_def its txns)
  ultimately show ?thesis ..
qed


lemma consume_materials_ledger:
  "ledger_invariant d \<Longrightarrow> items_have_transactions d \<Longrightarrow>
   consume_materials admin_id quantity pms d = Inr d' \<Longrightarrow>
   ledger_invariant d' \<and> items_have_transactions d'"
proof (induction pms arbitrary: d)
  case Nil
  then show ?case by simp
next
  case (Cons pm pms)
  from Cons.prems(3) obtain supplier where
    sup: "fetchone (filter (\<lambda>m. m_id m = pm_material_id pm) (materials d)) = Some supplier"
    and truthy: "\<not> falsy (m_supplier_id supplier)"
    by (cases "fetchone (filter (\<lambda>m. m_id m = pm_material_id pm) (materials d))")
       (auto simp: Let_def split: if_splits)
  define tid where "tid = new_id (map st_id (stock_transactions d))"
  define t where "t = \<lparr>st_id = tid, st_stock_type_id = ''STT002'',
                        st_supplier_id = present (m_supplier_id supplier), st_admin_id = admin_id,
                        st_employee_id = None\<rparr>"
  define it where "it = \<lparr>sti_stock_transaction_id = tid, sti_material_id = pm_material_id pm,
                          sti_quantity = pm_used_quantity pm * quantity\<rparr>"
  define d1 where "d1 = d\<lparr>stock_transactions := stock_transactions d @ [t],
                          stock_transaction_items := stock_transaction_items d @ [it],
                          materials := map (\<lambda>m. if m_id m = pm_material_id pm
                                then m\<lparr>m_current_stock := m_current_stock m - pm_used_quantity pm * quantity\<rparr>
                                else m) (materials d)\<rparr>"
  from Cons.prems(3) sup truthy have run: "consume_materials admin_id quantity pms d1 = Inr d'"
    by (simp add: Let_def d1_def t_def it_def tid_def)
  have "tid \<notin> set (map st_id (stock_transactions d))"
    unfolding tid_def by (rule new_id_fresh)
  then have "\<forall>x \<in> set (stock_transactions d). \<not> st_id x = tid" by auto
  then have ref: "fetchone (filter (\<lambda>x. st_id x = sti_stock_transaction_id it) (stock_transactions d1))
                    = Some t"
    by (simp add: d1_def it_def fetchone_append_fresh t_def del: filter_append)
  have "ledger_invariant d1 \<and> items_have_transactions d1"
    by (rule ledger_step [OF Cons.prems(1,2) _ _ ref, where new = "[t]"])
       (simp_all add: d1_def it_def is_consumption_def t_def)
  then have "ledger_invariant d1" "items_have_transactions d1" by simp_all
  from Cons.IH [OF this run] show ?case .
qed


lemma process_order_items_step:
  "process_order_items tid admin_id (item # its) tot d =
     (case fetchone (filter (\<lambda>p. p_id p = it_product_id item) (products d)) of
        None \<Rightarrow> Inl (ValueError (''Product ID '' @ it_product_id item @ '' not found.''))
      | Some p \<Rightarrow>
          (case consume_materials admin_id (it_quantity item)
                  (filter (\<lambda>pm. pm_product_id pm = it_product_id item) (product_materials d)) d of
             Inl e \<Rightarrow> Inl e
           | Inr d1 \<Rightarrow>
               process_order_items tid admin_id its (tot + it_quantity item * p_unit_price p)
                 (d1\<lparr>order_items := order_items d1 @
                       [\<lparr>oi_order_id = tid, oi_product_id = it_product_id item,
                         oi_quantity = it_quantity item, oi_unit_price = p_unit_price p\<rparr>]\<rparr>)))"
  by (cases "fetchone (filter (\<lambda>p. p_id p = it_product_id item) (products d))")
     (simp_all add: Let_def)

declare process_order_items.simps(2) [simp del]

lemma process_order_items_ledger:
  "ledger_invariant d \<Longrightarrow> items_have_transactions d \<Longrightarrow>
   process_order_items tid admin_id its tot d = Inr (tot', d') \<Longrightarrow>
   ledger_invariant d' \<and> items_have_transactions d'"
proof (induction its arbitrary: tot d)
  case Nil
  then show ?case by simp
next
  case (Cons item its)
  from Cons.prems(3) obtain p where
    p: "fetchone (filter (\<lambda>p. p_id p = it_product_id item) (products d)) = Some p"
    by (cases "fetchone (filter (\<lambda>p. p_id p = it_product_id item) (products d))")
       (simp_all only: process_order_items_step option.case sum.distinct)
  from Cons.prems(3) p obtain d1 where
    cons: "consume_materials admin_id (it_quantity item)
                 (filter (\<lambda>pm. pm_product_id pm = it_product_id item) (product_materials d)) d = Inr d1"
    by (cases "consume_materials admin_id (it_quantity item)
                 (filter (\<lambda>pm. pm_product_id pm = it_product_id item) (product_materials d)) d")
       (simp_all only: process_order_items_step option.case sum.case sum.distinct)
  define d2 where "d2 = d1\<lparr>order_items := order_items d1 @
                      [\<lparr>oi_order_id = tid, oi_product_id = it_product_id item,
                        oi_quantity = it_quantity item, oi_unit_price = p_unit_price p\<rparr>]\<rparr>"
  from Cons.prems(3) p cons
  have run: "process_order_items tid admin_id its (tot + it_quantity item * p_unit_price p) d2
              = Inr (tot', d')"
    by (simp only: process_order_items_step option.case sum.case d2_def)
  from consume_materials_ledger [OF Cons.prems(1,2) cons]
  have "ledger_invariant d1" "items_have_transactions d1" by simp_all
  then have "ledger_invariant d2" "items_have_transactions d2"
    by (simp_all add: d2_def)
  from Cons.IH [OF this run] show ?case .
qed

lemma create_order_transaction_ledger:
  assumes "ledger_invariant d" and "items_have_transactions d"
  shows "ledger_invariant (snd (create_order_transaction order d)) \<and>
         items_have_transactions (snd (create_order_transaction order d))"
proof (cases "resolve_customer order d")
  case (Inl e)
  with assms show ?thesis by (simp add: create_order_transaction_def)
next
  case (Inr r)
  obtain customer_id d0 where r: "r = (customer_id, d0)" by (cases r)
  from Inr r have "\<exists>rows. d0 = d\<lparr>customers := rows\<rparr>"
    by (cases "falsy (od_customer_id order)"; cases "od_customer order")
       (auto simp: resolve_customer_def create_customer_def Let_def
             intro: exI [of _ "customers d"])
  with assms have d0: "ledger_invariant d0" "items_have_transactions d0"
    by auto
  show ?thesis
  proof (cases "create_order_try order customer_id d0")
    case (Inl e)
    with Inr r d0 show ?thesis by (simp add: create_order_transaction_def)
  next
    case (Inr r')
    obtain transaction_id d' where r': "r' = (transaction_id, d')" by (cases r')
    define d1 where "d1 = d0\<lparr>order_transactions := order_transactions d0 @
                         [\<lparr>ot_id = new_id (map ot_id (order_transactions d0)),
                           ot_customer_id = customer_id,
                           ot_status_id = od_status_id order, ot_admin_id = od_admin_id order,
                           ot_total_amount = 0\<rparr>]\<rparr>"
    from Inr r' obtain total_amount d2 where
      run: "process_order_items (new_id (map ot_id (order_transactions d0))) (od_admin_id order)
              (od_items order) 0 d1 = Inr (total_amount, d2)"
      and d': "d' = d2\<lparr>order_transactions :=
                          map (\<lambda>t. if ot_id t = new_id (map ot_id (order_transactions d0))
                                    then t\<lparr>ot_total_amount := total_amount\<rparr> else t)
                              (order_transactions d2)\<rparr>"
      by (auto simp: create_order_try_def Let_def d1_def split: if_splits sum.splits)
    from d0 have "ledger_invariant d1" "items_have_transactions d1"
      by (simp_all add: d1_def)
    from process_order_items_ledger [OF this run]
    have "ledger_invariant d'" "items_have_transactions d'"
      by (simp_all add: d')
    with \<open>resolve_customer order d = Inr r\<close> r Inr r' show ?thesis
      by (simp add: create_order_transaction_def)
  qed
qed


lemma stock_items_loop_ledger:
  "ledger_invariant d \<Longrightarrow> items_have_transactions d \<Longrightarrow>
   fetchone (filter (\<lambda>x. st_id x = tid) (stock_transactions d)) = Some t \<Longrightarrow>
   \<not> is_consumption t \<Longrightarrow>
   ledger_invariant (stock_items_loop tid its d) \<and>
   items_have_transactions (stock_items_loop tid its d)"
proof (induction its arbitrary: d)
  case Nil
  then show ?case by simp
next
  case (Cons item its)
  define it where "it = \<lparr>sti_stock_transaction_id = tid, sti_material_id = si_material_id item,
                          sti_quantity = si_quantity item\<rparr>"
  define d1 where "d1 = d\<lparr>stock_transaction_items := stock_transaction_items d @ [it],
          materials := map (\<lambda>m. if m_id m = si_material_id item
                                 then m\<lparr>m_current_stock := m_current_stock m + si_quantity item\<rparr>
                                 else m) (materials d)\<rparr>"
  have ref: "fetchone (filter (\<lambda>x. st_id x = sti_stock_transaction_id it) (stock_transactions d1))
               = Some t"
    using Cons.prems(3) by (simp add: d1_def it_def)
  have "ledger_invariant d1 \<and> items_have_transactions d1"
    by (rule ledger_step [OF Cons.prems(1,2) _ _ ref, where new = "[]"])
       (simp_all add: d1_def it_def Cons.prems(4))
  moreover have "fetchone (filter (\<lambda>x. st_id x = tid) (stock_transactions d1)) = Some t"
    using Cons.prems(3) by (simp add: d1_def)
  ultimately have "ledger_invariant (stock_items_loop tid its d1) \<and>
                   items_have_transactions (stock_items_loop tid its d1)"
    using Cons.IH [of d1] Cons.prems(4) by simp
  then show ?case by (simp add: d1_def it_def)
qed


lemma stock_materials_ledger:
  assumes inv: "ledger_invariant d" and fk: "items_have_transactions d"
    and receipt: "resolve_stock_type data d \<noteq> Inr ''STT002''"
  shows "ledger_invariant (snd (stock_materials data d)) \<and>
         items_have_transactions (snd (stock_materials data d))"
proof (cases "stock_materials_try data d")
  case (Inl e)
  with inv fk show ?thesis by (simp add: stock_materials_def)
next
  case (Inr r)
  obtain stock_transaction_id d' where r: "r = (stock_transaction_id, d')" by (cases r)
  from Inr r obtain supplier_id d1 stock_type_id where
    sup: "resolve_supplier data d = Inr (supplier_id, d1)"
    and st: "resolve_stock_type data d1 = Inr stock_type_id"
    and tid: "stock_transaction_id = new_id (map st_id (stock_transactions d1))"
    and d': "d' = stock_items_loop stock_transaction_id (sd_items data)
                    (d1\<lparr>stock_transactions := stock_transactions d1 @
                         [\<lparr>st_id = stock_transaction_id, st_stock_type_id = stock_type_id,
                           st_supplier_id = supplier_id, st_admin_id = sd_admin_id data,
                           st_employee_id = sd_employee_id data\<rparr>]\<rparr>)"
    by (auto simp: stock_materials_try_def Let_def split: sum.splits if_splits)
  from resolve_supplier_frame [OF sup] obtain rows where d1: "d1 = d\<lparr>suppliers := rows\<rparr>" ..
  have "resolve_stock_type data d1 = resolve_stock_type data d"
    by (simp add: resolve_stock_type_def d1)
  with st receipt have not_c: "stock_type_id \<noteq> ''STT002''" by auto
  define t where "t = \<lparr>st_id = stock_transaction_id, st_stock_type_id = stock_type_id,
                        st_supplier_id = supplier_id, st_admin_id = sd_admin_id data,
                        st_employee_id = sd_employee_id data\<rparr>"
  define d2 where "d2 = d1\<lparr>stock_transactions := stock_transactions d1 @ [t]\<rparr>"
  have "ledger_invariant d2 \<and> items_have_transactions d2"
    by (rule ledger_new_transaction [OF inv fk, where new = "[t]"]) (simp_all add: d2_def d1)
  moreover have "stock_transaction_id \<notin> set (map st_id (stock_transactions d1))"
    unfolding tid by (rule new_id_fresh)
  then have "\<forall>x \<in> set (stock_transactions d1). \<not> st_id x = stock_transaction_id" by auto
  then have "fetchone (filter (\<lambda>x. st_id x = stock_transaction_id) (stock_transactions d2)) = Some t"
    by (simp add: d2_def fetchone_append_fresh t_def del: filter_append)
  moreover have "\<not> is_consumption t" using not_c by (simp add: is_consumption_def t_def)
  ultimately have "ledger_invariant (stock_items_loop stock_transaction_id (sd_items data) d2) \<and>
        items_have_transactions (stock_items_loop stock_transaction_id (sd_items data) d2)"
    by (simp add: stock_items_loop_ledger)
  with Inr r d' show ?thesis by (simp add: stock_materials_def d2_def t_def)
qed

text \<open>
  C3, as the code has it. Take a database where every material's \<open>current_stock\<close> is
  the signed sum of its ledger entries and every ledger item belongs to a stock
  transaction. After \<open>create_order_transaction\<close>, committed or rolled back, both still
  hold. After \<open>stock_materials\<close> both still hold when the stock type that the call
  records, the one given or the default, is not STT002: each line writes its ledger row
  and adjusts the counter by the same quantity between \<open>BEGIN\<close> and \<open>commit\<close>, and a
  call that raises leaves the database as it was.
\<close>

theorem ledger_invariant_preserved:
  "ledger_invariant d \<and> items_have_transactions d \<longrightarrow>
     (ledger_invariant (snd (create_order_transaction order d)) \<and>
      items_have_transactions (snd (create_order_transaction order d))) \<and>
     (resolve_stock_type data d \<noteq> Inr ''STT002'' \<longrightarrow>
        ledger_invariant (snd (stock_materials data d)) \<and>
        items_have_transactions (snd (stock_materials data d)))"
  using create_order_transaction_ledger [of d order] stock_materials_ledger [of d data]
  by blast

theorem ledger_invariant_preserved_witness:
  "ledger_invariant shop \<and> items_have_transactions shop \<and>
   map m_current_stock (materials (snd (create_order_transaction shared_steel_order shop))) = [- 1, 0] \<and>
   ledger_invariant (snd (create_order_transaction shared_steel_order shop)) \<and>
   resolve_stock_type receipt_by_both shop = Inr ''ST1'' \<and>
   map m_current_stock (materials (snd (stock_materials receipt_by_both shop))) = [5, 0] \<and>
   ledger_invariant (snd (stock_materials receipt_by_both shop))"
proof -
  have a: "ledger_invariant shop \<and> items_have_transactions shop" by code_simp
  have b: "resolve_stock_type receipt_by_both shop = Inr ''ST1''" by code_simp
  have c: "map m_current_stock (materials (snd (create_order_transaction shared_steel_order shop))) = [- 1, 0]"
    by code_simp
  have d: "map m_current_stock (materials (snd (stock_materials receipt_by_both shop))) = [5, 0]"
    by code_simp
  from ledger_invariant_preserved [of shop shared_steel_order receipt_by_both] a b c d
  show ?thesis by simp
qed

text \<open>
  C3 as stated fails: \<open>stock_materials\<close> records the stock type that the caller names
  and adds the quantity whatever that type is. The receipt of 5 kg of steel under the
  type STT002 is accepted; the stock of steel goes from 4 to 9, while the ledger now
  holds a receipt of 4 and an entry of 5 marked as consumption, a signed sum of -1.
\<close>

theorem ledger_invariant_counterexample:
  "ledger_invariant shop \<and> items_have_transactions shop \<and>
   sd_stock_type_id mislabelled_receipt = Some ''STT002'' \<and>
   fst (stock_materials mislabelled_receipt shop) = Inr ''###'' \<and>
   stock_transactions (snd (stock_materials mislabelled_receipt shop)) =
     stock_transactions shop @
     [\<lparr>st_id = ''###'', st_stock_type_id = ''STT002'', st_supplier_id = ''S1'',
       st_admin_id = Some ''AD1'', st_employee_id = None\<rparr>] \<and>
   map m_current_stock (materials (snd (stock_materials mislabelled_receipt shop))) = [9, 0] \<and>
   ledger_sum (snd (stock_materials mislabelled_receipt shop)) ''M'' = - 1 \<and>
   \<not> ledger_invariant (snd (stock_materials mislabelled_receipt shop))"
  by code_simp

end
